theory Spec2Isabelle
  imports Main "HOL-Library.Word"
begin

section \<open>Records of the service (main.go, lines 35-52)\<close>

text \<open>
  \<^verbatim>\<open>StaffCard\<close> is the Go struct: \<^verbatim>\<open>IDStaff int64\<close>, \<^verbatim>\<open>Identifier string\<close> and five
  \<^verbatim>\<open>*string\<close> fields. A Go pointer to a string is an option: \<^verbatim>\<open>nil\<close> is \<open>None\<close>.
\<close>

type_synonym int64 = "64 word"

record StaffCard =
  IDStaff :: int64
  Identifier :: string
  LastName :: "string option"
  FirstName :: "string option"
  MiddleName :: "string option"
  Status :: "string option"
  Info :: "string option"

text \<open>The value of \<^verbatim>\<open>var sc StaffCard\<close>: every field at its zero value.\<close>

definition zero_StaffCard :: StaffCard where
  "zero_StaffCard =
     \<lparr>IDStaff = 0, Identifier = [], LastName = None, FirstName = None,
      MiddleName = None, Status = None, Info = None\<rparr>"

text \<open>
  The \<^verbatim>\<open>data\<close> member of a reply is \<^verbatim>\<open>interface{}\<close>; the handlers modelled here put
  nothing, the summary of an update (\<^verbatim>\<open>records_updated\<close>, \<^verbatim>\<open>last_update\<close>) or one card
  there.
\<close>

datatype payload = NoData | UpdateData nat string | CardData StaffCard

record APIResponse =
  Success :: bool
  Message :: string
  Data :: payload
  Error :: string

text \<open>What a handler writes to its \<^verbatim>\<open>http.ResponseWriter\<close>: the status code and the body.\<close>

record reply =
  statusCode :: nat
  body :: APIResponse

definition returnJSONError :: "string \<Rightarrow> nat \<Rightarrow> reply" where
  "returnJSONError msg code =
     \<lparr>statusCode = code,
      body = \<lparr>Success = False, Message = [], Data = NoData, Error = msg\<rparr>\<rparr>"

text \<open>\<^verbatim>\<open>returnJSONSuccess\<close> writes no header, so the status is 200.\<close>

definition returnJSONSuccess :: "payload \<Rightarrow> string \<Rightarrow> reply" where
  "returnJSONSuccess d msg =
     \<lparr>statusCode = 200,
      body = \<lparr>Success = True, Message = msg, Data = d, Error = []\<rparr>\<rparr>"

section \<open>Decimal text and the clock\<close>

definition digit :: "nat \<Rightarrow> char" where
  "digit n = ''0123456789'' ! (n mod 10)"

text \<open>\<^verbatim>\<open>%d\<close> of a non-negative integer.\<close>

fun decimal :: "nat \<Rightarrow> string" where
  "decimal n = (if n < 10 then [digit n] else decimal (n div 10) @ [digit n])"

declare decimal.simps [simp del]

text \<open>\<^verbatim>\<open>%d\<close> of an \<^verbatim>\<open>int64\<close>, which is signed.\<close>

definition decimal64 :: "int64 \<Rightarrow> string" where
  "decimal64 w =
     (if sint w < 0 then CHR ''-'' # decimal (nat (- sint w)) else decimal (nat (sint w)))"

text \<open>
  One reading of \<^verbatim>\<open>time.Now()\<close>. The two layouts the program formats it with are
  \<^verbatim>\<open>20060102_150405\<close> (initPostgresTable) and \<^verbatim>\<open>2006-01-02 15:04:05\<close> (updateHandler):
  the year on four digits at least, every other field on two.
\<close>

record clock =
  year :: nat
  month :: nat
  day :: nat
  hour :: nat
  minute :: nat
  second :: nat

definition zero_padded :: "nat \<Rightarrow> nat \<Rightarrow> string" where
  "zero_padded w n = replicate (w - length (decimal n)) CHR ''0'' @ decimal n"

definition Format_20060102_150405 :: "clock \<Rightarrow> string" where
  "Format_20060102_150405 t =
     zero_padded 4 (year t) @ zero_padded 2 (month t) @ zero_padded 2 (day t) @ ''_'' @
     zero_padded 2 (hour t) @ zero_padded 2 (minute t) @ zero_padded 2 (second t)"

definition Format_2006_01_02_15_04_05 :: "clock \<Rightarrow> string" where
  "Format_2006_01_02_15_04_05 t =
     zero_padded 4 (year t) @ ''-'' @ zero_padded 2 (month t) @ ''-'' @ zero_padded 2 (day t) @
     '' '' @
     zero_padded 2 (hour t) @ '':'' @ zero_padded 2 (minute t) @ '':'' @ zero_padded 2 (second t)"

section \<open>The source store: rows of the join and \<^verbatim>\<open>rows.Scan\<close>\<close>

text \<open>
  A row of \<^verbatim>\<open>SELECT s.LAST_NAME, s.FIRST_NAME, s.MIDDLE_NAME, s.ID_STAFF, sc.IDENTIFIER\<close>:
  every column of a result set may be the database NULL, which is \<open>None\<close>.
\<close>

record source_row =
  LAST_NAME :: "string option"
  FIRST_NAME :: "string option"
  MIDDLE_NAME :: "string option"
  ID_STAFF :: "int64 option"
  IDENTIFIER :: "string option"

text \<open>\<^verbatim>\<open>sql.NullString\<close>, and how \<^verbatim>\<open>database/sql\<close> fills one: NULL leaves the empty
  string with \<^verbatim>\<open>Valid = false\<close>.\<close>

record NullString =
  Str :: string
  Valid :: bool

definition scan_NullString :: "string option \<Rightarrow> NullString" where
  "scan_NullString v =
     (case v of None \<Rightarrow> \<lparr>Str = [], Valid = False\<rparr> | Some s \<Rightarrow> \<lparr>Str = s, Valid = True\<rparr>)"

text \<open>
  \<^verbatim>\<open>if lastName.Valid { sc.LastName = &lastName.String }\<close>: the pointer stays \<^verbatim>\<open>nil\<close>
  unless the column was not NULL. The \<^verbatim>\<open>NullString\<close> variables are declared inside the
  loop body, so no two records share a pointer.
\<close>

definition ptr_of :: "NullString \<Rightarrow> string option" where
  "ptr_of ns = (if Valid ns then Some (Str ns) else None)"

text \<open>
  \<^verbatim>\<open>database/sql\<close> refuses to store NULL in an \<^verbatim>\<open>int64\<close> or a \<^verbatim>\<open>string\<close>; the error
  names the column by its index in the scan and by its name in the result set.
\<close>

definition scan_null_error :: "nat \<Rightarrow> string \<Rightarrow> string \<Rightarrow> string" where
  "scan_null_error i nm kind =
     ''sql: Scan error on column index '' @ decimal i @ '', name '' @ [CHR 0x22] @ nm @
     [CHR 0x22] @ '': converting NULL to '' @ kind @ '' is unsupported''"

text \<open>
  \<^verbatim>\<open>rows.Scan(&lastName, &firstName, &middleName, &sc.IDStaff, &sc.Identifier)\<close> followed
  by the three \<^verbatim>\<open>Valid\<close> tests (lines 360-378). The destinations are filled from left to
  right and the first failure is the error. \<^verbatim>\<open>Status\<close> and \<^verbatim>\<open>Info\<close> are never assigned.
\<close>

definition scan_source_row :: "source_row \<Rightarrow> string + StaffCard" where
  "scan_source_row r =
     (let lastName = scan_NullString (LAST_NAME r);
          firstName = scan_NullString (FIRST_NAME r);
          middleName = scan_NullString (MIDDLE_NAME r)
      in case ID_STAFF r of
           None \<Rightarrow> Inl (scan_null_error 3 ''ID_STAFF'' ''int64'')
         | Some i \<Rightarrow>
             (case IDENTIFIER r of
                None \<Rightarrow> Inl (scan_null_error 4 ''IDENTIFIER'' ''string'')
              | Some c \<Rightarrow>
                  Inr (zero_StaffCard
                        \<lparr>IDStaff := i, Identifier := c, LastName := ptr_of lastName,
                         FirstName := ptr_of firstName, MiddleName := ptr_of middleName\<rparr>)))"

text \<open>
  The loop \<^verbatim>\<open>for rows.Next() { ... staffCards = append(staffCards, sc) }\<close>
  (lines 357-387): a row that does not scan ends the handler.
\<close>

fun fetch_rows :: "source_row list \<Rightarrow> StaffCard list \<Rightarrow> string + StaffCard list" where
  "fetch_rows [] staffCards = Inr staffCards"
| "fetch_rows (r # rs) staffCards =
     (case scan_source_row r of
        Inl e \<Rightarrow> Inl e
      | Inr sc \<Rightarrow> fetch_rows rs (staffCards @ [sc]))"

section \<open>The destination store\<close>

text \<open>
  The PostgreSQL server is outside the repository. It is modelled as a catalogue of tables,
  each with its schema, its name, its column definitions and its rows in the order they
  were inserted. The model keeps what the program's statements depend on:
  \<^item> a statement that succeeds stores the values it is given (length limits, the parsing
    of a timestamp and other coercions of the server show up only as a failed statement);
  \<^item> a column that an INSERT does not assign holds NULL (the program's INSERT assigns every
    column it declares, so no row it writes takes the default of \<^verbatim>\<open>updated_at\<close>);
  \<^item> an unqualified table name is a table of schema \<^verbatim>\<open>public\<close>;
  \<^item> a SELECT without ORDER BY delivers the rows that match in an order the server
    chooses: the order is an argument of the query, given by the surroundings.
\<close>

datatype sql_value = SqlNull | SqlInt int64 | SqlText string

datatype sql_type = BIGINT | TEXT | VARCHAR nat | TIMESTAMP

datatype sql_default = NoDefault | CURRENT_TIMESTAMP

record column =
  col_name :: string
  col_type :: sql_type
  col_nullable :: bool
  col_default :: sql_default

type_synonym row = "(string \<times> sql_value) list"

record table =
  tbl_schema :: string
  tbl_name :: string
  tbl_columns :: "column list"
  tbl_rows :: "row list"

type_synonym catalogue = "table list"

definition is_table :: "string \<Rightarrow> string \<Rightarrow> table \<Rightarrow> bool" where
  "is_table sch nm t = (tbl_schema t = sch \<and> tbl_name t = nm)"

definition find_table :: "catalogue \<Rightarrow> string \<Rightarrow> string \<Rightarrow> table option" where
  "find_table cat sch nm = find (is_table sch nm) cat"

text \<open>\<^verbatim>\<open>SELECT EXISTS (SELECT FROM information_schema.tables WHERE table_schema = ..
  AND table_name = ..)\<close>.\<close>

definition table_exists :: "catalogue \<Rightarrow> string \<Rightarrow> string \<Rightarrow> bool" where
  "table_exists cat sch nm = list_ex (is_table sch nm) cat"

text \<open>
  \<^verbatim>\<open>SELECT column_name FROM information_schema.columns WHERE table_name = ..\<close>: the
  query names no schema, so it lists the columns of every table of that name, whatever its
  schema.
\<close>

definition column_names :: "catalogue \<Rightarrow> string \<Rightarrow> string list" where
  "column_names cat nm =
     concat (map (\<lambda>t. map col_name (tbl_columns t)) (filter (\<lambda>t. tbl_name t = nm) cat))"

definition quoted :: "string \<Rightarrow> string" where
  "quoted s = [CHR 0x22] @ s @ [CHR 0x22]"

definition no_relation :: "string \<Rightarrow> string" where
  "no_relation nm = ''pq: relation '' @ quoted nm @ '' does not exist''"

definition update_table :: "string \<Rightarrow> (table \<Rightarrow> table) \<Rightarrow> catalogue \<Rightarrow> catalogue" where
  "update_table nm f cat = map (\<lambda>t. if is_table ''public'' nm t then f t else t) cat"

text \<open>\<^verbatim>\<open>ALTER TABLE old RENAME TO new\<close>: the table keeps its columns and its rows.\<close>

definition rename_table :: "string \<Rightarrow> string \<Rightarrow> catalogue \<Rightarrow> string + catalogue" where
  "rename_table old new cat =
     (if \<not> table_exists cat ''public'' old then Inl (no_relation old)
      else if table_exists cat ''public'' new
        then Inl (''pq: relation '' @ quoted new @ '' already exists'')
      else Inr (update_table old (\<lambda>t. t\<lparr>tbl_name := new\<rparr>) cat))"

text \<open>\<^verbatim>\<open>CREATE TABLE nm (...)\<close>: a new table without rows.\<close>

definition create_table :: "string \<Rightarrow> column list \<Rightarrow> catalogue \<Rightarrow> string + catalogue" where
  "create_table nm cols cat =
     (if table_exists cat ''public'' nm
        then Inl (''pq: relation '' @ quoted nm @ '' already exists'')
      else Inr (cat @ [\<lparr>tbl_schema = ''public'', tbl_name = nm, tbl_columns = cols,
                         tbl_rows = []\<rparr>]))"

text \<open>\<^verbatim>\<open>DELETE FROM nm\<close>.\<close>

definition delete_from :: "string \<Rightarrow> catalogue \<Rightarrow> string + catalogue" where
  "delete_from nm cat =
     (if \<not> table_exists cat ''public'' nm then Inl (no_relation nm)
      else Inr (update_table nm (\<lambda>t. t\<lparr>tbl_rows := []\<rparr>) cat))"

text \<open>
  The row an INSERT builds for a table: the assigned value for a column the statement
  names, NULL for any other column.
\<close>

definition new_row :: "column list \<Rightarrow> (string \<times> sql_value) list \<Rightarrow> row" where
  "new_row cols assigns =
     map (\<lambda>c. (col_name c, case map_of assigns (col_name c) of Some v \<Rightarrow> v | None \<Rightarrow> SqlNull))
       cols"

definition violates_not_null :: "column list \<Rightarrow> row \<Rightarrow> bool" where
  "violates_not_null cols r =
     list_ex (\<lambda>c. \<not> col_nullable c \<and> map_of r (col_name c) = Some SqlNull) cols"

definition known_columns :: "table \<Rightarrow> string list \<Rightarrow> bool" where
  "known_columns t names = list_all (\<lambda>n. list_ex (\<lambda>c. col_name c = n) (tbl_columns t)) names"

text \<open>The analysis of \<^verbatim>\<open>INSERT INTO nm (names) VALUES (...)\<close> when it is prepared.\<close>

definition check_insert :: "string \<Rightarrow> string list \<Rightarrow> catalogue \<Rightarrow> string + catalogue" where
  "check_insert nm names cat =
     (case find_table cat ''public'' nm of
        None \<Rightarrow> Inl (no_relation nm)
      | Some t \<Rightarrow>
          if known_columns t names then Inr cat
          else Inl (''pq: column of relation '' @ quoted nm @ '' does not exist''))"

text \<open>The execution of \<^verbatim>\<open>INSERT INTO nm (names) VALUES (...)\<close>: one row more, at the end.\<close>

definition insert_into ::
  "string \<Rightarrow> (string \<times> sql_value) list \<Rightarrow> catalogue \<Rightarrow> string + catalogue" where
  "insert_into nm assigns cat =
     (case find_table cat ''public'' nm of
        None \<Rightarrow> Inl (no_relation nm)
      | Some t \<Rightarrow>
          if \<not> known_columns t (map fst assigns)
            then Inl (''pq: column of relation '' @ quoted nm @ '' does not exist'')
          else if violates_not_null (tbl_columns t) (new_row (tbl_columns t) assigns)
            then Inl (''pq: null value in column of relation '' @ quoted nm @
                      '' violates not-null constraint'')
          else Inr (update_table nm
                 (\<lambda>t. t\<lparr>tbl_rows := tbl_rows t @ [new_row (tbl_columns t) assigns]\<rparr>) cat))"

text \<open>
  \<^verbatim>\<open>SELECT names FROM nm WHERE wcol = v\<close>: the rows whose \<open>wcol\<close> holds \<open>v\<close>, each
  cut down to the selected columns. The statement has no \<^verbatim>\<open>ORDER BY\<close>, so the server
  delivers the matching rows in an order of its own: \<open>deliver\<close> is that order, applied to
  the matching rows as the table holds them.
\<close>

definition project :: "string list \<Rightarrow> row \<Rightarrow> sql_value list" where
  "project names r = map (\<lambda>n. case map_of r n of Some v \<Rightarrow> v | None \<Rightarrow> SqlNull) names"

definition select_where ::
  "(row list \<Rightarrow> row list) \<Rightarrow> string list \<Rightarrow> string \<Rightarrow> string \<Rightarrow> sql_value \<Rightarrow> catalogue \<Rightarrow>
     string + sql_value list list"
where
  "select_where deliver names nm wcol v cat =
     (case find_table cat ''public'' nm of
        None \<Rightarrow> Inl (no_relation nm)
      | Some t \<Rightarrow>
          if \<not> known_columns t (wcol # names) then Inl (''pq: column does not exist'')
          else Inr (map (project names)
                 (deliver (filter (\<lambda>r. map_of r wcol = Some v) (tbl_rows t)))))"

subsection \<open>A session of the program with the server\<close>

text \<open>
  \<open>committed\<close> is what every session reads. A transaction works on its own copy, which
  replaces \<open>committed\<close> when it commits and is dropped when it is rolled back; a
  transaction that is neither committed nor rolled back stays \<open>TxOpen\<close>. \<open>trace\<close> lists
  the calls the program made on the destination, in order, failed calls included.
\<close>

datatype tx_state = NoTx | TxOpen catalogue | TxCommitted | TxRolledBack | TxFailed

datatype pg_op =
    OpConnect | OpQueryTableExists | OpQueryColumns | OpExecRename string | OpExecCreate
  | OpBegin | OpExecDelete | OpPrepare | OpStmtExec "sql_value list" | OpStmtClose
  | OpCommit | OpRollback | OpClose | OpQuerySearch string

record pg =
  committed :: catalogue
  tx :: tx_state
  trace :: "pg_op list"

definition called :: "pg_op \<Rightarrow> pg \<Rightarrow> pg" where
  "called op s = s\<lparr>trace := trace s @ [op]\<rparr>"

text \<open>
  Every call can fail for a reason of the server's or the network's: the \<open>string option\<close>
  each operation takes is that failure, when there is one. A call can also fail for what
  the catalogue holds (a table that is missing, a name that is taken).

  \<^verbatim>\<open>db.Exec\<close> outside a transaction takes effect at once.
\<close>

definition db_exec ::
  "pg_op \<Rightarrow> string option \<Rightarrow> (catalogue \<Rightarrow> string + catalogue) \<Rightarrow> pg \<Rightarrow> string option \<times> pg"
where
  "db_exec op fault stmt s =
     (let s' = called op s
      in case fault of
           Some e \<Rightarrow> (Some e, s')
         | None \<Rightarrow>
             (case stmt (committed s') of
                Inl e \<Rightarrow> (Some e, s')
              | Inr cat \<Rightarrow> (None, s'\<lparr>committed := cat\<rparr>)))"

definition ErrTxDone :: string where
  "ErrTxDone = ''sql: transaction has already been committed or rolled back''"

text \<open>\<^verbatim>\<open>db.Begin\<close>.\<close>

definition db_begin :: "string option \<Rightarrow> pg \<Rightarrow> string option \<times> pg" where
  "db_begin fault s =
     (let s' = called OpBegin s
      in case fault of
           Some e \<Rightarrow> (Some e, s')
         | None \<Rightarrow> (None, s'\<lparr>tx := TxOpen (committed s')\<rparr>))"

text \<open>\<^verbatim>\<open>tx.Exec\<close>, \<^verbatim>\<open>tx.Prepare\<close> and \<^verbatim>\<open>stmt.Exec\<close>: a statement inside the transaction.\<close>

definition tx_exec ::
  "pg_op \<Rightarrow> string option \<Rightarrow> (catalogue \<Rightarrow> string + catalogue) \<Rightarrow> pg \<Rightarrow> string option \<times> pg"
where
  "tx_exec op fault stmt s =
     (let s' = called op s
      in case fault of
           Some e \<Rightarrow> (Some e, s')
         | None \<Rightarrow>
             (case tx s' of
                TxOpen w \<Rightarrow>
                  (case stmt w of
                     Inl e \<Rightarrow> (Some e, s')
                   | Inr w' \<Rightarrow> (None, s'\<lparr>tx := TxOpen w'\<rparr>))
              | _ \<Rightarrow> (Some ErrTxDone, s')))"

text \<open>\<^verbatim>\<open>tx.Commit\<close>: a commit that fails commits nothing and ends the transaction.\<close>

definition tx_commit :: "string option \<Rightarrow> pg \<Rightarrow> string option \<times> pg" where
  "tx_commit fault s =
     (let s' = called OpCommit s
      in case tx s' of
           TxOpen w \<Rightarrow>
             (case fault of
                Some e \<Rightarrow> (Some e, s'\<lparr>tx := TxFailed\<rparr>)
              | None \<Rightarrow> (None, s'\<lparr>committed := w, tx := TxCommitted\<rparr>))
         | _ \<Rightarrow> (Some ErrTxDone, s'))"

text \<open>\<^verbatim>\<open>tx.Rollback\<close>: the working copy is dropped; on a transaction that is over it does
  nothing.\<close>

definition tx_rollback :: "pg \<Rightarrow> pg" where
  "tx_rollback s =
     (let s' = called OpRollback s
      in case tx s' of TxOpen w \<Rightarrow> s'\<lparr>tx := TxRolledBack\<rparr> | _ \<Rightarrow> s')"

text \<open>\<^verbatim>\<open>stmt.Close\<close> and \<^verbatim>\<open>db.Close\<close>. \<^verbatim>\<open>db.Close\<close> closes the idle connections of the
  pool; it sends neither COMMIT nor ROLLBACK for a transaction that is still open.\<close>

definition stmt_close :: "pg \<Rightarrow> pg" where
  "stmt_close s = called OpStmtClose s"

definition db_close :: "pg \<Rightarrow> pg" where
  "db_close s = called OpClose s"

section \<open>initPostgresTable (lines 229-321)\<close>

text \<open>
  What the surroundings decide in one call: the failure of each database call, if any
  (\<open>columns_scan_err i\<close> is the failure of \<^verbatim>\<open>rows.Scan\<close> on the \<open>i\<close>-th column name),
  after how many rows \<^verbatim>\<open>rows.Next\<close> stops early (the function never reads
  \<^verbatim>\<open>rows.Err\<close>), and the clock.
\<close>

record init_env =
  exists_err :: "string option"
  columns_err :: "string option"
  columns_stop :: "nat option"
  columns_scan_err :: "nat \<Rightarrow> string option"
  rename_err :: "string option"
  create_err :: "string option"
  init_now :: clock

text \<open>\<^verbatim>\<open>for rows.Next() { ... columns = append(columns, col) }\<close> (lines 257-263).\<close>

fun scan_columns ::
  "(nat \<Rightarrow> string option) \<Rightarrow> nat \<Rightarrow> string list \<Rightarrow> string list \<Rightarrow> string + string list"
where
  "scan_columns flt i [] columns = Inr columns"
| "scan_columns flt i (c # cs) columns =
     (case flt i of
        Some e \<Rightarrow> Inl e
      | None \<Rightarrow> scan_columns flt (Suc i) cs (columns @ [c]))"

text \<open>The keys of the map \<^verbatim>\<open>requiredColumns\<close> (lines 265-269).\<close>

definition requiredColumns :: "string list" where
  "requiredColumns =
     [''id_staff'', ''identifier'', ''last_name'', ''first_name'', ''middle_name'',
      ''status'', ''info'', ''updated_at'']"

text \<open>
  Lines 271-284: every key of \<^verbatim>\<open>requiredColumns\<close> is looked up in \<^verbatim>\<open>columns\<close>, and
  the first one that is not found clears \<^verbatim>\<open>hasAllColumns\<close>. The order in which Go walks
  the map does not change the result.
\<close>

definition hasAllColumns :: "string list \<Rightarrow> bool" where
  "hasAllColumns columns = list_all (\<lambda>col. list_ex (\<lambda>c. c = col) columns) requiredColumns"

text \<open>The columns of the \<^verbatim>\<open>CREATE TABLE staff_cards\<close> statement (lines 300-311): no column
  is declared \<^verbatim>\<open>NOT NULL\<close>.\<close>

definition staff_cards_columns :: "column list" where
  "staff_cards_columns =
     [\<lparr>col_name = ''id_staff'', col_type = BIGINT, col_nullable = True, col_default = NoDefault\<rparr>,
      \<lparr>col_name = ''identifier'', col_type = TEXT, col_nullable = True, col_default = NoDefault\<rparr>,
      \<lparr>col_name = ''last_name'', col_type = VARCHAR 255, col_nullable = True,
        col_default = NoDefault\<rparr>,
      \<lparr>col_name = ''first_name'', col_type = VARCHAR 255, col_nullable = True,
        col_default = NoDefault\<rparr>,
      \<lparr>col_name = ''middle_name'', col_type = VARCHAR 255, col_nullable = True,
        col_default = NoDefault\<rparr>,
      \<lparr>col_name = ''status'', col_type = VARCHAR 50, col_nullable = True, col_default = NoDefault\<rparr>,
      \<lparr>col_name = ''info'', col_type = VARCHAR 50, col_nullable = True, col_default = NoDefault\<rparr>,
      \<lparr>col_name = ''updated_at'', col_type = TIMESTAMP, col_nullable = True,
        col_default = CURRENT_TIMESTAMP\<rparr>]"

text \<open>The block \<^verbatim>\<open>if !tableExists { ... }\<close> (lines 298-315).\<close>

definition create_staff_cards :: "init_env \<Rightarrow> pg \<Rightarrow> string option \<times> pg" where
  "create_staff_cards env s =
     (case db_exec OpExecCreate (create_err env)
             (create_table ''staff_cards'' staff_cards_columns) s of
        (Some e, s') \<Rightarrow> (Some (''error creating table: '' @ e), s')
      | (None, s') \<Rightarrow> (None, s'))"

definition archive_name :: "clock \<Rightarrow> string" where
  "archive_name now = ''staff_cards_old_'' @ Format_20060102_150405 now"

definition initPostgresTable :: "init_env \<Rightarrow> pg \<Rightarrow> string option \<times> pg" where
  "initPostgresTable env s0 =
     (let s1 = called OpQueryTableExists s0
      in case exists_err env of
           Some e \<Rightarrow> (Some (''error checking table existence: '' @ e), s1)
         | None \<Rightarrow>
             if table_exists (committed s1) ''public'' ''staff_cards'' then
               (let s2 = called OpQueryColumns s1
                in case columns_err env of
                     Some e \<Rightarrow> (Some (''error checking table structure: '' @ e), s2)
                   | None \<Rightarrow>
                       (let names = column_names (committed s2) ''staff_cards'';
                            delivered = (case columns_stop env of
                                           None \<Rightarrow> names | Some n \<Rightarrow> take n names)
                        in case scan_columns (columns_scan_err env) 0 delivered [] of
                             Inl e \<Rightarrow> (Some (''error scanning column: '' @ e), s2)
                           | Inr columns \<Rightarrow>
                               if \<not> hasAllColumns columns then
                                 (let newName = archive_name (init_now env)
                                  in case db_exec (OpExecRename newName) (rename_err env)
                                            (rename_table ''staff_cards'' newName) s2 of
                                       (Some e, s3) \<Rightarrow>
                                         (Some (''error renaming table: '' @ e), s3)
                                     | (None, s3) \<Rightarrow> create_staff_cards env s3)
                               else (None, s2)))
             else create_staff_cards env s1)"

section \<open>updateHandler (lines 324-502)\<close>

text \<open>
  What the surroundings decide in one request: the method, the failure of each call if
  any, the rows the source cursor delivers and the error it ends with (\<^verbatim>\<open>rows.Err\<close>),
  the surroundings of \<^verbatim>\<open>initPostgresTable\<close>, the failure of each INSERT by its index
  in the loop, and the clock read for \<^verbatim>\<open>updateTime\<close>.
\<close>

record update_env =
  update_method :: string
  fb_connect_err :: "string option"
  fb_query_err :: "string option"
  fb_rows :: "source_row list"
  fb_rows_err :: "string option"
  pg_connect_err :: "string option"
  pg_init :: init_env
  begin_err :: "string option"
  delete_err :: "string option"
  prepare_err :: "string option"
  insert_err :: "nat \<Rightarrow> string option"
  commit_err :: "string option"
  update_now :: clock

text \<open>The column list of the prepared INSERT (lines 452-456).\<close>

definition insert_columns :: "string list" where
  "insert_columns =
     [''id_staff'', ''identifier'', ''last_name'', ''first_name'', ''middle_name'',
      ''status'', ''info'', ''updated_at'']"

text \<open>A \<^verbatim>\<open>*string\<close> argument of \<^verbatim>\<open>stmt.Exec\<close>: \<^verbatim>\<open>nil\<close> is sent as NULL.\<close>

definition arg_of_ptr :: "string option \<Rightarrow> sql_value" where
  "arg_of_ptr p = (case p of None \<Rightarrow> SqlNull | Some s \<Rightarrow> SqlText s)"

text \<open>The eight arguments of \<^verbatim>\<open>stmt.Exec\<close> (lines 467-476).\<close>

definition insert_args :: "StaffCard \<Rightarrow> string \<Rightarrow> sql_value list" where
  "insert_args sc updateTime =
     [SqlInt (IDStaff sc), SqlText (Identifier sc), arg_of_ptr (LastName sc),
      arg_of_ptr (FirstName sc), arg_of_ptr (MiddleName sc), arg_of_ptr (Status sc),
      arg_of_ptr (Info sc), SqlText updateTime]"

definition stmt_Exec :: "string option \<Rightarrow> sql_value list \<Rightarrow> pg \<Rightarrow> string option \<times> pg" where
  "stmt_Exec fault args s =
     tx_exec (OpStmtExec args) fault (insert_into ''staff_cards'' (zip insert_columns args)) s"

text \<open>
  The loop \<^verbatim>\<open>for _, sc := range staffCards\<close> (lines 465-488). Its
  \<^verbatim>\<open>_, err := stmt.Exec(...)\<close> declares an \<^verbatim>\<open>err\<close> of the loop body: the error it
  returns with is not stored in the \<^verbatim>\<open>err\<close> of the handler.
\<close>

fun insert_loop ::
  "(nat \<Rightarrow> string option) \<Rightarrow> string \<Rightarrow> StaffCard list \<Rightarrow> nat \<Rightarrow> pg \<Rightarrow> string option \<times> pg"
where
  "insert_loop flt updateTime [] insertCount s = (None, s)"
| "insert_loop flt updateTime (sc # scs) insertCount s =
     (case stmt_Exec (flt insertCount) (insert_args sc updateTime) s of
        (Some e, s') \<Rightarrow> (Some e, s')
      | (None, s') \<Rightarrow> insert_loop flt updateTime scs (Suc insertCount) s')"

text \<open>
  The deferred function of lines 433-438, run when the handler returns:
  \<^verbatim>\<open>if err != nil { tx.Rollback() }\<close>, where \<^verbatim>\<open>err\<close> is the variable of the handler.
\<close>

definition deferred_rollback :: "string option \<Rightarrow> pg \<Rightarrow> pg" where
  "deferred_rollback err s = (if err \<noteq> None then tx_rollback s else s)"

text \<open>
  Lines 405-502, with the records in hand. The deferred calls run at each return, last
  deferred first: \<^verbatim>\<open>stmt.Close\<close>, the rollback function, \<^verbatim>\<open>pgDB.Close\<close>. The
  argument of \<open>deferred_rollback\<close> is what the handler's \<^verbatim>\<open>err\<close> holds at that return:
  the error of \<^verbatim>\<open>tx.Exec\<close>, \<^verbatim>\<open>tx.Prepare\<close> or \<^verbatim>\<open>tx.Commit\<close>, which are assigned to it,
  and still \<^verbatim>\<open>nil\<close> (from \<^verbatim>\<open>tx.Prepare\<close>) when an INSERT of the loop fails.
\<close>

definition load_staff_cards :: "update_env \<Rightarrow> StaffCard list \<Rightarrow> pg \<Rightarrow> reply \<times> pg" where
  "load_staff_cards env staffCards s0 =
     (let s1 = called OpConnect s0
      in case pg_connect_err env of
           Some e \<Rightarrow> (returnJSONError (''PostgreSQL connection error: '' @ e) 500, s1)
         | None \<Rightarrow>
      (case initPostgresTable (pg_init env) s1 of
         (Some e, s2) \<Rightarrow>
           (returnJSONError (''Table initialization error: '' @ e) 500, db_close s2)
       | (None, s2) \<Rightarrow>
      (case db_begin (begin_err env) s2 of
         (Some e, s3) \<Rightarrow> (returnJSONError (''Transaction error: '' @ e) 500, db_close s3)
       | (None, s3) \<Rightarrow>
      (case tx_exec OpExecDelete (delete_err env) (delete_from ''staff_cards'') s3 of
         (Some e, s4) \<Rightarrow>
           (returnJSONError (''Error clearing table: '' @ e) 500,
            db_close (deferred_rollback (Some e) s4))
       | (None, s4) \<Rightarrow>
      (let updateTime = Format_2006_01_02_15_04_05 (update_now env)
       in case tx_exec OpPrepare (prepare_err env)
                 (check_insert ''staff_cards'' insert_columns) s4 of
            (Some e, s5) \<Rightarrow>
              (returnJSONError (''Error preparing statement: '' @ e) 500,
               db_close (deferred_rollback (Some e) s5))
          | (None, s5) \<Rightarrow>
      (case insert_loop (insert_err env) updateTime staffCards 0 s5 of
         (Some e, s6) \<Rightarrow>
           (returnJSONError (''Error inserting data: '' @ e) 500,
            db_close (deferred_rollback None (stmt_close s6)))
       | (None, s6) \<Rightarrow>
      (case tx_commit (commit_err env) s6 of
         (Some e, s7) \<Rightarrow>
           (returnJSONError (''Error committing transaction: '' @ e) 500,
            db_close (deferred_rollback (Some e) (stmt_close s7)))
       | (None, s7) \<Rightarrow>
           (returnJSONSuccess (UpdateData (length staffCards) updateTime)
              (''Updated '' @ decimal (length staffCards) @ '' records''),
            db_close (deferred_rollback None (stmt_close s7))))))))))"

text \<open>Lines 324-403, then the load.\<close>

definition updateHandler :: "update_env \<Rightarrow> pg \<Rightarrow> reply \<times> pg" where
  "updateHandler env s =
     (if update_method env \<noteq> ''POST'' \<and> update_method env \<noteq> ''GET''
        then (returnJSONError ''Method not allowed'' 405, s)
      else case fb_connect_err env of
        Some e \<Rightarrow> (returnJSONError (''Firebird connection error: '' @ e) 500, s)
      | None \<Rightarrow>
      (case fb_query_err env of
         Some e \<Rightarrow> (returnJSONError (''Firebird query error: '' @ e) 500, s)
       | None \<Rightarrow>
      (case fetch_rows (fb_rows env) [] of
         Inl e \<Rightarrow> (returnJSONError (''Error scanning row: '' @ e) 500, s)
       | Inr staffCards \<Rightarrow>
      (case fb_rows_err env of
         Some e \<Rightarrow> (returnJSONError (''Error iterating rows: '' @ e) 500, s)
       | None \<Rightarrow>
           if length staffCards = 0
             then (returnJSONError ''No data found in Firebird'' 500, s)
           else load_staff_cards env staffCards s))))"

section \<open>searchAPIHandler (lines 505-579)\<close>

text \<open>
  What the surroundings decide in one search: the method, the \<^verbatim>\<open>card\<close> parameter, the
  failure of each call if any, and the order in which the server delivers the rows that
  match.
\<close>

record search_env =
  search_method :: string
  card :: string
  search_connect_err :: "string option"
  search_query_err :: "string option"
  search_delivery :: "row list \<Rightarrow> row list"

text \<open>
  \<^verbatim>\<open>rows.Scan\<close> on a row of the destination. A text is stored as it is and an integer as
  its decimal text in a string; NULL is refused by \<^verbatim>\<open>int64\<close> and \<^verbatim>\<open>string\<close>. The
  conversion of a text to \<^verbatim>\<open>int64\<close>, which only a table with an \<^verbatim>\<open>id_staff\<close> column of a
  text type needs, is not modelled: it counts as a failure.
\<close>

definition text_of :: "sql_value \<Rightarrow> string option" where
  "text_of v = (case v of SqlNull \<Rightarrow> None | SqlInt i \<Rightarrow> Some (decimal64 i) | SqlText t \<Rightarrow> Some t)"

definition scan_int64 :: "nat \<Rightarrow> string \<Rightarrow> sql_value \<Rightarrow> string + int64" where
  "scan_int64 i nm v =
     (case v of
        SqlNull \<Rightarrow> Inl (scan_null_error i nm ''int64'')
      | SqlInt n \<Rightarrow> Inr n
      | SqlText t \<Rightarrow>
          Inl (''sql: Scan error on column index '' @ decimal i @ '', name '' @ quoted nm @
               '': converting driver.Value type string to a int64''))"

definition scan_string :: "nat \<Rightarrow> string \<Rightarrow> sql_value \<Rightarrow> string + string" where
  "scan_string i nm v =
     (case text_of v of None \<Rightarrow> Inl (scan_null_error i nm ''string'') | Some t \<Rightarrow> Inr t)"

text \<open>
  \<^verbatim>\<open>rows.Scan(&sc.IDStaff, &sc.Identifier, &lastName, &firstName, &middleName, &status,
  &info)\<close> and the five \<^verbatim>\<open>Valid\<close> tests (lines 543-567).
\<close>

definition scan_card_row :: "sql_value list \<Rightarrow> string + StaffCard" where
  "scan_card_row vs =
     (case vs of
        [v0, v1, v2, v3, v4, v5, v6] \<Rightarrow>
          (case scan_int64 0 ''id_staff'' v0 of
             Inl e \<Rightarrow> Inl e
           | Inr i \<Rightarrow>
               (case scan_string 1 ''identifier'' v1 of
                  Inl e \<Rightarrow> Inl e
                | Inr c \<Rightarrow>
                    (let lastName = scan_NullString (text_of v2);
                         firstName = scan_NullString (text_of v3);
                         middleName = scan_NullString (text_of v4);
                         status = scan_NullString (text_of v5);
                         info = scan_NullString (text_of v6)
                     in Inr (zero_StaffCard
                              \<lparr>IDStaff := i, Identifier := c, LastName := ptr_of lastName,
                               FirstName := ptr_of firstName, MiddleName := ptr_of middleName,
                               Status := ptr_of status, Info := ptr_of info\<rparr>))))
      | _ \<Rightarrow> Inl ''sql: expected 7 destination arguments in Scan'')"

text \<open>The loop \<^verbatim>\<open>for rows.Next() { ... results = append(results, sc) }\<close> (lines 541-570).\<close>

fun search_rows :: "sql_value list list \<Rightarrow> StaffCard list \<Rightarrow> string + StaffCard list" where
  "search_rows [] results = Inr results"
| "search_rows (vs # rest) results =
     (case scan_card_row vs of
        Inl e \<Rightarrow> Inl e
      | Inr sc \<Rightarrow> search_rows rest (results @ [sc]))"

definition search_columns :: "string list" where
  "search_columns =
     [''id_staff'', ''identifier'', ''last_name'', ''first_name'', ''middle_name'',
      ''status'', ''info'']"

text \<open>
  The handler reads through a connection of its own, outside any transaction: it sees
  \<open>committed\<close>. It answers with \<^verbatim>\<open>results[0]\<close>.
\<close>

definition searchAPIHandler :: "search_env \<Rightarrow> pg \<Rightarrow> reply \<times> pg" where
  "searchAPIHandler env s =
     (if search_method env \<noteq> ''GET'' then (returnJSONError ''Method not allowed'' 405, s)
      else if card env = []
        then (returnJSONError (''Missing '' @ [CHR 0x27] @ ''card'' @ [CHR 0x27] @ '' parameter'')
                400, s)
      else
        (let s1 = called OpConnect s
         in case search_connect_err env of
              Some e \<Rightarrow> (returnJSONError (''PostgreSQL connection error: '' @ e) 500, s1)
            | None \<Rightarrow>
        (let s2 = called (OpQuerySearch (card env)) s1
         in case search_query_err env of
              Some e \<Rightarrow> (returnJSONError (''Search error: '' @ e) 500, db_close s2)
            | None \<Rightarrow>
        (case select_where (search_delivery env) search_columns ''staff_cards'' ''identifier''
                (SqlText (card env)) (committed s2) of
           Inl e \<Rightarrow> (returnJSONError (''Search error: '' @ e) 500, db_close s2)
         | Inr found \<Rightarrow>
        (case search_rows found [] of
           Inl e \<Rightarrow> (returnJSONError (''Error scanning row: '' @ e) 500, db_close s2)
         | Inr results \<Rightarrow>
        (case results of
           [] \<Rightarrow> (returnJSONError ''Card not found'' 404, db_close s2)
         | sc # _ \<Rightarrow> (returnJSONSuccess (CardData sc) ''Card found'', db_close s2)))))))"

section \<open>Surroundings without failures, and sample data\<close>

text \<open>The surroundings in which no call fails for a reason of the server's or the
  network's. In \<open>quiet_search\<close> the server delivers the rows that match in the order of
  insertion.\<close>

definition quiet_init :: "clock \<Rightarrow> init_env" where
  "quiet_init now =
     \<lparr>exists_err = None, columns_err = None, columns_stop = None,
      columns_scan_err = (\<lambda>i. None), rename_err = None, create_err = None, init_now = now\<rparr>"

definition quiet_update :: "string \<Rightarrow> source_row list \<Rightarrow> clock \<Rightarrow> update_env" where
  "quiet_update m rs now =
     \<lparr>update_method = m, fb_connect_err = None, fb_query_err = None, fb_rows = rs,
      fb_rows_err = None, pg_connect_err = None, pg_init = quiet_init now, begin_err = None,
      delete_err = None, prepare_err = None, insert_err = (\<lambda>i. None), commit_err = None,
      update_now = now\<rparr>"

definition quiet_search :: "string \<Rightarrow> search_env" where
  "quiet_search c =
     \<lparr>search_method = ''GET'', card = c, search_connect_err = None, search_query_err = None,
      search_delivery = (\<lambda>rs. rs)\<rparr>"

text \<open>The reads of \<^verbatim>\<open>initPostgresTable\<close> succeed and deliver every row.\<close>

definition reads_succeed :: "init_env \<Rightarrow> bool" where
  "reads_succeed env =
     (exists_err env = None \<and> columns_err env = None \<and> columns_stop env = None \<and>
      columns_scan_err env = (\<lambda>i. None))"

text \<open>A session that has made no call yet on a given catalogue.\<close>

definition fresh_session :: "catalogue \<Rightarrow> pg" where
  "fresh_session cat = \<lparr>committed = cat, tx = NoTx, trace = []\<rparr>"

definition noon :: clock where
  "noon = \<lparr>year = 2024, month = 3, day = 9, hour = 12, minute = 0, second = 5\<rparr>"

definition mk_row ::
  "string option \<Rightarrow> string option \<Rightarrow> string option \<Rightarrow> int64 option \<Rightarrow> string option \<Rightarrow> source_row"
where
  "mk_row l f m i c =
     \<lparr>LAST_NAME = l, FIRST_NAME = f, MIDDLE_NAME = m, ID_STAFF = i, IDENTIFIER = c\<rparr>"

definition mk_table :: "string \<Rightarrow> string \<Rightarrow> column list \<Rightarrow> row list \<Rightarrow> table" where
  "mk_table sch nm cols rs =
     \<lparr>tbl_schema = sch, tbl_name = nm, tbl_columns = cols, tbl_rows = rs\<rparr>"

definition text_column :: "string \<Rightarrow> column" where
  "text_column nm =
     \<lparr>col_name = nm, col_type = TEXT, col_nullable = True, col_default = NoDefault\<rparr>"

text \<open>The row the prepared INSERT stores for a record in a table with the given columns.\<close>

definition stored_row :: "column list \<Rightarrow> string \<Rightarrow> StaffCard \<Rightarrow> row" where
  "stored_row cols updateTime sc = new_row cols (zip insert_columns (insert_args sc updateTime))"

text \<open>The catalogue is well formed when no two tables share schema and name; the tables
  called \<^verbatim>\<open>staff_cards\<close> are all in schema \<^verbatim>\<open>public\<close> when no other schema has one.\<close>

definition wf_catalogue :: "catalogue \<Rightarrow> bool" where
  "wf_catalogue cat = distinct (map (\<lambda>t. (tbl_schema t, tbl_name t)) cat)"

definition only_public :: "catalogue \<Rightarrow> string \<Rightarrow> bool" where
  "only_public cat nm = (filter (\<lambda>t. tbl_name t = nm \<and> tbl_schema t \<noteq> ''public'') cat = [])"

text \<open>Sample tables: the table as the program creates it, a table with one column more,
  a table that lacks six of the required columns, and a table of the same name in another
  schema.\<close>

definition old_row :: row where
  "old_row = [(''id_staff'', SqlInt 1), (''identifier'', SqlText ''0001'')]"

definition correct_table :: "row list \<Rightarrow> table" where
  "correct_table rs = mk_table ''public'' ''staff_cards'' staff_cards_columns rs"

definition wide_table :: table where
  "wide_table =
     mk_table ''public'' ''staff_cards'' (staff_cards_columns @ [text_column ''department'']) []"

definition narrow_table :: table where
  "narrow_table =
     mk_table ''public'' ''staff_cards'' [text_column ''id_staff'', text_column ''identifier'']
       [old_row]"

definition shadow_table :: table where
  "shadow_table = mk_table ''backup'' ''staff_cards'' staff_cards_columns []"

text \<open>A source of two rows that share the card identifier \<^verbatim>\<open>0007\<close>: the first has a
  NULL last name and an empty middle name, the second a NULL first and middle name. The
  records they decode to, and the surroundings in which the second INSERT of the load
  fails.\<close>

definition sample_rows :: "source_row list" where
  "sample_rows =
     [mk_row None (Some ''Anna'') (Some []) (Some 7) (Some ''0007''),
      mk_row (Some ''Petrov'') None None (Some 8) (Some ''0007'')]"

definition sample_cards :: "StaffCard list" where
  "sample_cards =
     [\<lparr>IDStaff = 7, Identifier = ''0007'', LastName = None, FirstName = Some ''Anna'',
       MiddleName = Some [], Status = None, Info = None\<rparr>,
      \<lparr>IDStaff = 8, Identifier = ''0007'', LastName = Some ''Petrov'', FirstName = None,
       MiddleName = None, Status = None, Info = None\<rparr>]"

text \<open>A source of two rows whose card identifier is the empty text.\<close>

definition blank_rows :: "source_row list" where
  "blank_rows =
     [mk_row (Some ''Ivanov'') None None (Some 3) (Some []),
      mk_row (Some ''Sidorov'') None None (Some 4) (Some [])]"

definition second_insert_fails :: update_env where
  "second_insert_fails =
     (quiet_update ''POST'' sample_rows noon)
       \<lparr>insert_err := (\<lambda>i. if i = 1 then Some ''boom'' else None)\<rparr>"

section \<open>Facts about the helpers\<close>

lemma decimal_small: "n < 10 \<Longrightarrow> decimal n = [digit n]"
  by (simp add: decimal.simps)

section \<open>The catalogue and the reconciler\<close>

lemma scan_columns_quiet: "scan_columns (\<lambda>i. None) i cs acc = Inr (acc @ cs)"
  by (induction cs arbitrary: i acc) auto

lemma hasAllColumns_iff: "hasAllColumns cols \<longleftrightarrow> set requiredColumns \<subseteq> set cols"
  by (auto simp: hasAllColumns_def list_all_iff list_ex_iff)

lemma hasAllColumns_mono: "hasAllColumns cols \<Longrightarrow> set cols \<subseteq> set cols' \<Longrightarrow> hasAllColumns cols'"
  by (auto simp: hasAllColumns_iff)

lemma table_exists_find: "table_exists cat sch nm \<longleftrightarrow> find_table cat sch nm \<noteq> None"
  by (auto simp: table_exists_def find_table_def list_ex_iff find_None_iff)

lemma find_table_mem: "find_table cat sch nm = Some t \<Longrightarrow> t \<in> set cat \<and> is_table sch nm t"
  unfolding find_table_def by (auto simp: find_Some_iff)

lemma column_names_public:
  assumes "find_table cat ''public'' nm = Some t"
  shows "set (map col_name (tbl_columns t)) \<subseteq> set (column_names cat nm)"
  using find_table_mem [OF assms] by (auto simp: column_names_def is_table_def)

lemma called_simps [simp]:
  "committed (called op s) = committed s" "tx (called op s) = tx s"
  "trace (called op s) = trace s @ [op]"
  by (simp_all add: called_def)

lemma init_correct_table:
  assumes "find_table (committed s) ''public'' ''staff_cards'' = Some t"
    and "hasAllColumns (map col_name (tbl_columns t))"
    and "reads_succeed env"
  shows "initPostgresTable env s = (None, called OpQueryColumns (called OpQueryTableExists s))"
proof -
  have ex: "table_exists (committed s) ''public'' ''staff_cards''"
    using assms(1) by (simp add: table_exists_find)
  have "hasAllColumns (column_names (committed s) ''staff_cards'')"
    using hasAllColumns_mono [OF assms(2)] column_names_public [OF assms(1)] by simp
  then show ?thesis using ex assms(3)
    by (simp add: initPostgresTable_def reads_succeed_def scan_columns_quiet Let_def)
qed


lemma archive_name_neq [simp]: "archive_name now \<noteq> ''staff_cards''" "''staff_cards'' \<noteq> archive_name now"
  by (simp_all add: archive_name_def)

lemma table_exists_append [simp]:
  "table_exists (cat @ cat') sch nm \<longleftrightarrow> table_exists cat sch nm \<or> table_exists cat' sch nm"
  by (simp add: table_exists_def)

lemma find_table_append:
  "find_table (cat @ cat') sch nm =
     (case find_table cat sch nm of Some t \<Rightarrow> Some t | None \<Rightarrow> find_table cat' sch nm)"
  by (induction cat) (auto simp: find_table_def)

lemma rename_old_gone:
  "old \<noteq> new \<Longrightarrow> \<not> table_exists (update_table old (\<lambda>t. t\<lparr>tbl_name := new\<rparr>) cat) ''public'' old"
  by (induction cat) (auto simp: update_table_def table_exists_def is_table_def)

lemma rename_new_found:
  "find_table cat ''public'' old = Some t \<Longrightarrow> \<not> table_exists cat ''public'' new \<Longrightarrow>
   find_table (update_table old (\<lambda>t. t\<lparr>tbl_name := new\<rparr>) cat) ''public'' new
     = Some (t\<lparr>tbl_name := new\<rparr>)"
  by (induction cat) (auto simp: update_table_def table_exists_def find_table_def is_table_def)

lemma rename_other_exists:
  "nm \<noteq> old \<Longrightarrow> nm \<noteq> new \<Longrightarrow>
   table_exists (update_table old (\<lambda>t. t\<lparr>tbl_name := new\<rparr>) cat) sch nm = table_exists cat sch nm"
  by (induction cat) (auto simp: update_table_def table_exists_def is_table_def)

lemma create_staff_cards_ok:
  assumes "create_staff_cards env s = (None, s')"
  shows "\<not> table_exists (committed s) ''public'' ''staff_cards'' \<and>
         committed s' = committed s @ [mk_table ''public'' ''staff_cards'' staff_cards_columns []] \<and>
         tx s' = tx s"
  using assms
  by (auto simp: create_staff_cards_def db_exec_def create_table_def Let_def mk_table_def
      split: option.splits sum.splits if_splits)

lemma find_fresh:
  assumes "\<not> table_exists cat ''public'' ''staff_cards''"
  shows "find_table (cat @ [mk_table ''public'' ''staff_cards'' cols rs]) ''public'' ''staff_cards''
     = Some (mk_table ''public'' ''staff_cards'' cols rs)"
proof -
  have "find_table cat ''public'' ''staff_cards'' = None"
    using assms by (simp add: table_exists_find)
  moreover have "find_table [mk_table ''public'' ''staff_cards'' cols rs] ''public'' ''staff_cards''
      = Some (mk_table ''public'' ''staff_cards'' cols rs)"
    by (simp add: find_table_def is_table_def mk_table_def)
  ultimately show ?thesis by (simp add: find_table_append)
qed

lemma init_fresh:
  assumes "initPostgresTable env s = (None, s')"
    and "\<not> table_exists (committed s) ''public'' ''staff_cards'' \<or>
         (\<not> table_exists (committed s) ''public'' (archive_name (init_now env)) \<and>
          table_exists (committed s') ''public'' (archive_name (init_now env)))"
  shows "find_table (committed s') ''public'' ''staff_cards''
           = Some (mk_table ''public'' ''staff_cards'' staff_cards_columns [])"
proof (cases "table_exists (committed s) ''public'' ''staff_cards''")
  case False
  then have "create_staff_cards env (called OpQueryTableExists s) = (None, s')"
    using assms(1) by (auto simp: initPostgresTable_def Let_def split: option.splits)
  from create_staff_cards_ok [OF this] show ?thesis by (simp add: find_fresh)
next
  case True
  then have arch: "\<not> table_exists (committed s) ''public'' (archive_name (init_now env))"
      "table_exists (committed s') ''public'' (archive_name (init_now env))"
    using assms(2) by auto
  let ?s2 = "called OpQueryColumns (called OpQueryTableExists s)"
  let ?new = "archive_name (init_now env)"
  have "s' \<noteq> ?s2" using arch by auto
  then obtain s3 where
    r: "db_exec (OpExecRename ?new) (rename_err env) (rename_table ''staff_cards'' ?new) ?s2
          = (None, s3)"
    and c: "create_staff_cards env s3 = (None, s')"
    using assms(1) True
    by (auto simp: initPostgresTable_def Let_def split: option.splits sum.splits if_splits prod.splits)
  from r have "committed s3 = update_table ''staff_cards'' (\<lambda>t. t\<lparr>tbl_name := ?new\<rparr>) (committed s)"
    by (auto simp: db_exec_def rename_table_def Let_def split: option.splits sum.splits if_splits)
  from create_staff_cards_ok [OF c] show ?thesis by (simp add: find_fresh)
qed

lemma filter_is_table_unique:
  "wf_catalogue cat \<Longrightarrow> find_table cat sch nm = Some t \<Longrightarrow> filter (is_table sch nm) cat = [t]"
proof (induction cat)
  case Nil
  then show ?case by (simp add: find_table_def)
next
  case (Cons a cat)
  show ?case
  proof (cases "is_table sch nm a")
    case True
    then have "t = a" using Cons.prems(2) by (simp add: find_table_def)
    moreover have "filter (is_table sch nm) cat = []"
      using Cons.prems(1) True
      by (auto simp: wf_catalogue_def is_table_def filter_empty_conv image_iff)
    ultimately show ?thesis using True by simp
  next
    case False
    then show ?thesis using Cons by (simp add: find_table_def wf_catalogue_def)
  qed
qed

lemma column_names_only_public:
  assumes "wf_catalogue cat" and "only_public cat nm" and "find_table cat ''public'' nm = Some t"
  shows "column_names cat nm = map col_name (tbl_columns t)"
proof -
  have "filter (\<lambda>t. tbl_name t = nm) cat = filter (is_table ''public'' nm) cat"
    using assms(2) by (auto simp: only_public_def is_table_def filter_empty_conv intro!: filter_cong)
  then show ?thesis
    using filter_is_table_unique [OF assms(1,3)] by (simp add: column_names_def)
qed


section \<open>The loader\<close>

lemma returnJSONError_not_success [simp]: "\<not> Success (body (returnJSONError m c))"
  by (simp add: returnJSONError_def)

lemma update_table_twice:
  "update_table nm (\<lambda>t. t\<lparr>tbl_rows := g t (tbl_rows t)\<rparr>)
     (update_table nm (\<lambda>t. t\<lparr>tbl_rows := f t (tbl_rows t)\<rparr>) cat) =
   update_table nm (\<lambda>t. t\<lparr>tbl_rows := g (t\<lparr>tbl_rows := f t (tbl_rows t)\<rparr>) (f t (tbl_rows t))\<rparr>) cat"
  by (simp add: update_table_def is_table_def)

lemma insert_into_ok:
  "insert_into nm assigns w = Inr w' \<Longrightarrow>
   w' = update_table nm (\<lambda>t. t\<lparr>tbl_rows := tbl_rows t @ [new_row (tbl_columns t) assigns]\<rparr>) w"
  by (auto simp: insert_into_def split: option.splits if_splits)

lemma stmt_Exec_ok:
  assumes "stmt_Exec fault (insert_args sc ut) s = (None, s')" and "tx s = TxOpen w"
  shows "committed s' = committed s \<and>
         tx s' = TxOpen (update_table ''staff_cards''
                   (\<lambda>t. t\<lparr>tbl_rows := tbl_rows t @ [stored_row (tbl_columns t) ut sc]\<rparr>) w)"
  using assms
  by (auto simp: stmt_Exec_def tx_exec_def Let_def stored_row_def dest!: insert_into_ok
      split: option.splits sum.splits)

lemma insert_loop_ok:
  "insert_loop flt ut scs k s = (None, s') \<Longrightarrow> tx s = TxOpen w \<Longrightarrow>
   committed s' = committed s \<and>
   tx s' = TxOpen (update_table ''staff_cards''
             (\<lambda>t. t\<lparr>tbl_rows := tbl_rows t @ map (stored_row (tbl_columns t) ut) scs\<rparr>) w)"
proof (induction scs arbitrary: k s w)
  case Nil
  then show ?case by (simp add: update_table_def)
next
  case (Cons sc scs)
  from Cons.prems(1) obtain s1 where
    e: "stmt_Exec (flt k) (insert_args sc ut) s = (None, s1)" and
    l: "insert_loop flt ut scs (Suc k) s1 = (None, s')"
    by (auto split: prod.splits option.splits)
  note a = stmt_Exec_ok [OF e Cons.prems(2)]
  from Cons.IH [OF l] a show ?case
    by (simp add: update_table_def is_table_def)
qed

lemma find_table_update_table:
  "(\<And>t. tbl_schema (f t) = tbl_schema t \<and> tbl_name (f t) = tbl_name t) \<Longrightarrow>
   find_table (update_table nm f cat) ''public'' nm = map_option f (find_table cat ''public'' nm)"
  by (induction cat) (auto simp: update_table_def find_table_def is_table_def)

lemma load_success:
  assumes "load_staff_cards env scs s0 = (r, s')" and "Success (body r)"
  shows "\<exists>s2 t. initPostgresTable (pg_init env) (called OpConnect s0) = (None, s2) \<and>
           find_table (committed s2) ''public'' ''staff_cards'' = Some t \<and>
           known_columns t insert_columns \<and>
           r = returnJSONSuccess
                 (UpdateData (length scs) (Format_2006_01_02_15_04_05 (update_now env)))
                 (''Updated '' @ decimal (length scs) @ '' records'') \<and>
           committed s' = update_table ''staff_cards''
              (\<lambda>t. t\<lparr>tbl_rows := map (stored_row (tbl_columns t)
                                        (Format_2006_01_02_15_04_05 (update_now env))) scs\<rparr>)
              (committed s2) \<and>
           tx s' = TxCommitted"
proof -
  let ?ut = "Format_2006_01_02_15_04_05 (update_now env)"
  let ?s1 = "called OpConnect s0"
  from assms obtain s2 where i: "initPostgresTable (pg_init env) ?s1 = (None, s2)"
    by (auto simp: load_staff_cards_def Let_def split: option.splits prod.splits)
  from assms i obtain s3 where b: "db_begin (begin_err env) s2 = (None, s3)"
    by (auto simp: load_staff_cards_def Let_def split: option.splits prod.splits)
  from assms i b obtain s4 where
    d: "tx_exec OpExecDelete (delete_err env) (delete_from ''staff_cards'') s3 = (None, s4)"
    by (auto simp: load_staff_cards_def Let_def split: option.splits prod.splits)
  from assms i b d obtain s5 where
    p: "tx_exec OpPrepare (prepare_err env) (check_insert ''staff_cards'' insert_columns) s4 = (None, s5)"
    by (auto simp: load_staff_cards_def Let_def split: option.splits prod.splits)
  from assms i b d p obtain s6 where
    l: "insert_loop (insert_err env) ?ut scs 0 s5 = (None, s6)"
    by (auto simp: load_staff_cards_def Let_def split: option.splits prod.splits)
  from assms i b d p l obtain s7 where
    c: "tx_commit (commit_err env) s6 = (None, s7)"
    by (auto simp: load_staff_cards_def Let_def split: option.splits prod.splits)
  from assms i b d p l c have
    r: "r = returnJSONSuccess (UpdateData (length scs) ?ut)
              (''Updated '' @ decimal (length scs) @ '' records'')"
    and s': "s' = db_close (deferred_rollback None (stmt_close s7))"
    by (auto simp: load_staff_cards_def Let_def split: option.splits prod.splits)
  let ?w4 = "update_table ''staff_cards'' (\<lambda>t. t\<lparr>tbl_rows := []\<rparr>) (committed s2)"
  from b have s3: "committed s3 = committed s2" "tx s3 = TxOpen (committed s2)"
    by (auto simp: db_begin_def Let_def split: option.splits)
  from d s3 have s4: "committed s4 = committed s2" "tx s4 = TxOpen ?w4"
    by (auto simp: tx_exec_def delete_from_def Let_def split: option.splits sum.splits if_splits)
  from p s4 obtain t4 where s5: "committed s5 = committed s2" "tx s5 = TxOpen ?w4"
    and t4: "find_table ?w4 ''public'' ''staff_cards'' = Some t4" "known_columns t4 insert_columns"
    by (auto simp: tx_exec_def check_insert_def Let_def split: option.splits sum.splits if_splits)
  from t4(1) obtain t where t: "find_table (committed s2) ''public'' ''staff_cards'' = Some t"
    and t4e: "t4 = t\<lparr>tbl_rows := []\<rparr>"
    by (auto simp: find_table_update_table)
  have k: "known_columns t insert_columns" using t4(2) t4e by (simp add: known_columns_def)
  from insert_loop_ok [OF l s5(2)] s5 have s6: "committed s6 = committed s2"
    "tx s6 = TxOpen (update_table ''staff_cards''
             (\<lambda>t. t\<lparr>tbl_rows := map (stored_row (tbl_columns t) ?ut) scs\<rparr>) (committed s2))"
    by (simp_all add: update_table_def is_table_def)
  from c s6 have s7: "tx s7 = TxCommitted" "committed s7 = update_table ''staff_cards''
             (\<lambda>t. t\<lparr>tbl_rows := map (stored_row (tbl_columns t) ?ut) scs\<rparr>) (committed s2)"
    by (auto simp: tx_commit_def Let_def split: option.splits)
  from s' s7 have "tx s' = TxCommitted" "committed s' = committed s7"
    by (simp_all add: db_close_def deferred_rollback_def stmt_close_def)
  with i t k r s7 show ?thesis by simp
qed

lemma map_of_new_row:
  "map_of (new_row cols assigns) n =
     (if list_ex (\<lambda>c. col_name c = n) cols
      then Some (case map_of assigns n of Some v \<Rightarrow> v | None \<Rightarrow> SqlNull) else None)"
  by (induction cols) (auto simp: new_row_def)

lemma known_columns_mem:
  "known_columns t names \<Longrightarrow> n \<in> set names \<Longrightarrow> list_ex (\<lambda>c. col_name c = n) (tbl_columns t)"
  by (auto simp: known_columns_def list_all_iff)

lemma stored_row_lookup:
  assumes "known_columns t insert_columns"
  shows "map_of (stored_row (tbl_columns t) ut sc) ''id_staff'' = Some (SqlInt (IDStaff sc))"
    and "map_of (stored_row (tbl_columns t) ut sc) ''identifier'' = Some (SqlText (Identifier sc))"
    and "map_of (stored_row (tbl_columns t) ut sc) ''last_name'' = Some (arg_of_ptr (LastName sc))"
    and "map_of (stored_row (tbl_columns t) ut sc) ''first_name'' = Some (arg_of_ptr (FirstName sc))"
    and "map_of (stored_row (tbl_columns t) ut sc) ''middle_name'' = Some (arg_of_ptr (MiddleName sc))"
    and "map_of (stored_row (tbl_columns t) ut sc) ''status'' = Some (arg_of_ptr (Status sc))"
    and "map_of (stored_row (tbl_columns t) ut sc) ''info'' = Some (arg_of_ptr (Info sc))"
    and "map_of (stored_row (tbl_columns t) ut sc) ''updated_at'' = Some (SqlText ut)"
  using assms
  by (simp_all add: stored_row_def map_of_new_row known_columns_mem [where names = insert_columns]
      insert_columns_def insert_args_def)

lemma ptr_roundtrip [simp]: "ptr_of (scan_NullString (text_of (arg_of_ptr p))) = p"
  by (cases p) (simp_all add: ptr_of_def scan_NullString_def text_of_def arg_of_ptr_def)

lemma text_of_simps [simp]:
  "text_of SqlNull = None" "text_of (SqlInt i) = Some (decimal64 i)" "text_of (SqlText x) = Some x"
  by (simp_all add: text_of_def)

lemma scan_stored_row:
  assumes "known_columns t insert_columns"
  shows "scan_card_row (project search_columns (stored_row (tbl_columns t) ut sc)) = Inr sc"
  using stored_row_lookup [OF assms, of ut sc]
  by (cases sc)
     (simp add: project_def search_columns_def scan_card_row_def scan_int64_def scan_string_def
      zero_StaffCard_def)

section \<open>The schema reconciler\<close>

lemma archive_name_noon: "archive_name noon = ''staff_cards_old_20240309_120005''"
  by (simp add: archive_name_def Format_20060102_150405_def zero_padded_def noon_def
      decimal.simps digit_def)

text \<open>
  Claim C7. On a destination whose table \<^verbatim>\<open>public.staff_cards\<close> has every required column,
  and with reads that succeed, \<^verbatim>\<open>initPostgresTable\<close> returns no error and only runs its
  two reads; a second call right after does the same. The tables are the same after both
  calls as before (so no table was renamed or created), the transaction state is untouched,
  and the trace holds nothing but the four reads.
\<close>

theorem reconcile_twice_is_noop:
  assumes "find_table (committed s) ''public'' ''staff_cards'' = Some t"
    and "hasAllColumns (map col_name (tbl_columns t))"
    and "reads_succeed env1" and "reads_succeed env2"
    and "s1 = called OpQueryColumns (called OpQueryTableExists s)"
    and "s2 = called OpQueryColumns (called OpQueryTableExists s1)"
  shows "initPostgresTable env1 s = (None, s1) \<and> initPostgresTable env2 s1 = (None, s2) \<and>
         committed s1 = committed s \<and> committed s2 = committed s \<and> tx s2 = tx s \<and>
         trace s2 = trace s @ [OpQueryTableExists, OpQueryColumns, OpQueryTableExists, OpQueryColumns]"
proof -
  have a: "initPostgresTable env1 s = (None, s1)"
    using init_correct_table [OF assms(1,2,3)] assms(5) by simp
  have "find_table (committed s1) ''public'' ''staff_cards'' = Some t"
    using assms(1,5) by simp
  from init_correct_table [OF this assms(2,4)] have b: "initPostgresTable env2 s1 = (None, s2)"
    using assms(6) by simp
  show ?thesis using a b assms(5,6) by simp
qed

theorem reconcile_twice_is_noop_witness:
  "initPostgresTable (quiet_init noon) (fresh_session [correct_table [old_row]]) =
     (None, \<lparr>committed = [correct_table [old_row]], tx = NoTx,
             trace = [OpQueryTableExists, OpQueryColumns]\<rparr>) \<and>
   initPostgresTable (quiet_init noon)
     \<lparr>committed = [correct_table [old_row]], tx = NoTx,
      trace = [OpQueryTableExists, OpQueryColumns]\<rparr> =
     (None, \<lparr>committed = [correct_table [old_row]], tx = NoTx,
             trace = [OpQueryTableExists, OpQueryColumns, OpQueryTableExists, OpQueryColumns]\<rparr>)"
  using reconcile_twice_is_noop
    [of "fresh_session [correct_table [old_row]]" "correct_table [old_row]"
        "quiet_init noon" "quiet_init noon"
        "called OpQueryColumns (called OpQueryTableExists (fresh_session [correct_table [old_row]]))"
        "called OpQueryColumns (called OpQueryTableExists
           (called OpQueryColumns (called OpQueryTableExists (fresh_session [correct_table [old_row]]))))"]
  by (simp add: fresh_session_def correct_table_def mk_table_def find_table_def is_table_def
      hasAllColumns_def requiredColumns_def staff_cards_columns_def reads_succeed_def
      quiet_init_def called_def)

text \<open>
  Claim C4, as stated: a table whose column set is not exactly the required set, for
  instance one with a ninth column, is archived. It is not: the table with the extra column
  \<^verbatim>\<open>department\<close> is left as it is, and the call reports the correct structure.
\<close>

theorem extra_column_not_archived:
  "initPostgresTable (quiet_init noon) (fresh_session [wide_table]) =
     (None, \<lparr>committed = [wide_table], tx = NoTx,
             trace = [OpQueryTableExists, OpQueryColumns]\<rparr>) \<and>
   set (map col_name (tbl_columns wide_table)) \<noteq> set requiredColumns"
proof -
  have a: "find_table (committed (fresh_session [wide_table])) ''public'' ''staff_cards'' = Some wide_table"
    by (simp add: fresh_session_def wide_table_def mk_table_def find_table_def is_table_def)
  have b: "hasAllColumns (map col_name (tbl_columns wide_table))"
    by (simp add: wide_table_def mk_table_def hasAllColumns_def requiredColumns_def
        staff_cards_columns_def text_column_def)
  have c: "reads_succeed (quiet_init noon)"
    by (simp add: reads_succeed_def quiet_init_def)
  have d: "''department'' \<in> set (map col_name (tbl_columns wide_table))"
    by (simp add: wide_table_def mk_table_def text_column_def)
  have e: "''department'' \<notin> set requiredColumns"
    by (simp add: requiredColumns_def)
  from d e have "set (map col_name (tbl_columns wide_table)) \<noteq> set requiredColumns" by blast
  with init_correct_table [OF a b c] show ?thesis
    by (simp add: fresh_session_def called_def)
qed

text \<open>
  Claim C4, amended. Where no two tables share a schema and a name, \<^verbatim>\<open>staff_cards\<close>
  exists in schema \<^verbatim>\<open>public\<close> and in no other schema, the calls succeed and the
  archival name is free, the table is archived exactly
  when one of the eight required column names is missing from its columns: if none is
  missing the tables are unchanged, whatever other columns the table has; otherwise the
  table is found under the archival name with its columns and rows, and
  \<^verbatim>\<open>staff_cards\<close> is the newly created table.
\<close>

theorem stale_iff_required_column_missing:
  assumes "wf_catalogue (committed s)" and "only_public (committed s) ''staff_cards''"
    and "find_table (committed s) ''public'' ''staff_cards'' = Some t"
    and "reads_succeed env" and "rename_err env = None" and "create_err env = None"
    and "\<not> table_exists (committed s) ''public'' (archive_name (init_now env))"
  shows "\<exists>s'. initPostgresTable env s = (None, s') \<and>
           (if set requiredColumns \<subseteq> set (map col_name (tbl_columns t))
            then committed s' = committed s
            else find_table (committed s') ''public'' (archive_name (init_now env))
                   = Some (t\<lparr>tbl_name := archive_name (init_now env)\<rparr>) \<and>
                 find_table (committed s') ''public'' ''staff_cards''
                   = Some (mk_table ''public'' ''staff_cards'' staff_cards_columns []))"
proof (cases "set requiredColumns \<subseteq> set (map col_name (tbl_columns t))")
  case True
  then have "hasAllColumns (map col_name (tbl_columns t))" by (simp add: hasAllColumns_iff)
  from init_correct_table [OF assms(3) this assms(4)] True show ?thesis by simp
next
  case False
  let ?new = "archive_name (init_now env)"
  let ?cat' = "update_table ''staff_cards'' (\<lambda>t. t\<lparr>tbl_name := ?new\<rparr>) (committed s)"
  let ?fresh = "mk_table ''public'' ''staff_cards'' staff_cards_columns []"
  have ex: "table_exists (committed s) ''public'' ''staff_cards''"
    using assms(3) by (simp add: table_exists_find)
  have nh: "\<not> hasAllColumns (column_names (committed s) ''staff_cards'')"
    using False column_names_only_public [OF assms(1,2,3)] by (simp add: hasAllColumns_iff)
  have gone: "\<not> table_exists ?cat' ''public'' ''staff_cards''"
    by (rule rename_old_gone) simp
  have "initPostgresTable env s =
          (None, \<lparr>committed = ?cat' @ [?fresh], tx = tx s,
                  trace = trace s @ [OpQueryTableExists, OpQueryColumns, OpExecRename ?new, OpExecCreate]\<rparr>)"
    using ex nh assms(4,5,6,7) gone
    by (simp add: initPostgresTable_def reads_succeed_def scan_columns_quiet Let_def
        db_exec_def rename_table_def create_staff_cards_def create_table_def called_def mk_table_def)
  moreover have "find_table (?cat' @ [?fresh]) ''public'' ?new = Some (t\<lparr>tbl_name := ?new\<rparr>)"
    using rename_new_found [OF assms(3,7)] by (simp add: find_table_append)
  moreover have "find_table (?cat' @ [?fresh]) ''public'' ''staff_cards'' = Some ?fresh"
    using gone by (rule find_fresh)
  ultimately show ?thesis using False by simp
qed

theorem stale_iff_required_column_missing_witness:
  "\<exists>s'. initPostgresTable (quiet_init noon) (fresh_session [narrow_table]) = (None, s') \<and>
      find_table (committed s') ''public'' ''staff_cards_old_20240309_120005''
        = Some (narrow_table\<lparr>tbl_name := ''staff_cards_old_20240309_120005''\<rparr>) \<and>
      find_table (committed s') ''public'' ''staff_cards''
        = Some (mk_table ''public'' ''staff_cards'' staff_cards_columns [])"
proof -
  have a: "wf_catalogue (committed (fresh_session [narrow_table]))"
    by (simp add: wf_catalogue_def fresh_session_def)
  have b: "only_public (committed (fresh_session [narrow_table])) ''staff_cards''"
    by (simp add: only_public_def fresh_session_def narrow_table_def mk_table_def)
  have c: "find_table (committed (fresh_session [narrow_table])) ''public'' ''staff_cards''
             = Some narrow_table"
    by (simp add: fresh_session_def narrow_table_def mk_table_def find_table_def is_table_def)
  have d: "reads_succeed (quiet_init noon)" "rename_err (quiet_init noon) = None"
    "create_err (quiet_init noon) = None" "init_now (quiet_init noon) = noon"
    by (simp_all add: reads_succeed_def quiet_init_def)
  have e: "\<not> table_exists (committed (fresh_session [narrow_table])) ''public''
             (archive_name (init_now (quiet_init noon)))"
    by (simp add: d table_exists_def fresh_session_def narrow_table_def mk_table_def is_table_def)
  have f: "\<not> set requiredColumns \<subseteq> set (map col_name (tbl_columns narrow_table))"
    by (simp add: requiredColumns_def narrow_table_def mk_table_def text_column_def)
  from stale_iff_required_column_missing [OF a b c d(1,2,3) e] f show ?thesis
    by (simp add: d archive_name_noon)
qed

text \<open>
  Claim C5, as stated: the two key columns of the created table are not nullable. They are
  nullable: \<^verbatim>\<open>CREATE TABLE\<close> declares no \<^verbatim>\<open>NOT NULL\<close>, and the created table takes a
  row whose \<^verbatim>\<open>id_staff\<close> and \<^verbatim>\<open>identifier\<close> are both NULL.
\<close>

theorem created_key_columns_accept_null:
  "initPostgresTable (quiet_init noon) (fresh_session []) =
     (None, \<lparr>committed = [mk_table ''public'' ''staff_cards'' staff_cards_columns []],
             tx = NoTx, trace = [OpQueryTableExists, OpExecCreate]\<rparr>) \<and>
   map (\<lambda>c. (col_name c, col_nullable c)) (take 2 staff_cards_columns)
     = [(''id_staff'', True), (''identifier'', True)] \<and>
   insert_into ''staff_cards'' [(''id_staff'', SqlNull), (''identifier'', SqlNull)]
       [mk_table ''public'' ''staff_cards'' staff_cards_columns []]
     = Inr [mk_table ''public'' ''staff_cards'' staff_cards_columns
              [new_row staff_cards_columns [(''id_staff'', SqlNull), (''identifier'', SqlNull)]]]"
  by (simp add: initPostgresTable_def quiet_init_def fresh_session_def called_def
      table_exists_def create_staff_cards_def db_exec_def create_table_def Let_def
      mk_table_def insert_into_def find_table_def is_table_def known_columns_def
      violates_not_null_def staff_cards_columns_def update_table_def new_row_def)

text \<open>
  Claim C5, amended. When \<^verbatim>\<open>initPostgresTable\<close> succeeds on a destination where
  \<^verbatim>\<open>staff_cards\<close> did not exist, or where it archived the table (the archival name is
  taken after the call and was free before), \<^verbatim>\<open>staff_cards\<close> is the table of the
  \<^verbatim>\<open>CREATE TABLE\<close> statement, without rows: its columns are the eight required ones, and
  every one of them is nullable, the two keys included.
\<close>

theorem fresh_table_all_nullable:
  assumes "initPostgresTable env s = (None, s')"
    and "\<not> table_exists (committed s) ''public'' ''staff_cards'' \<or>
         (\<not> table_exists (committed s) ''public'' (archive_name (init_now env)) \<and>
          table_exists (committed s') ''public'' (archive_name (init_now env)))"
  shows "find_table (committed s') ''public'' ''staff_cards''
           = Some (mk_table ''public'' ''staff_cards'' staff_cards_columns []) \<and>
         map col_name staff_cards_columns = requiredColumns \<and>
         list_all col_nullable staff_cards_columns"
  using init_fresh [OF assms]
  by (simp add: staff_cards_columns_def requiredColumns_def)

theorem fresh_table_all_nullable_witness:
  "find_table (committed (snd (initPostgresTable (quiet_init noon) (fresh_session []))))
       ''public'' ''staff_cards''
     = Some (mk_table ''public'' ''staff_cards'' staff_cards_columns []) \<and>
   list_all col_nullable staff_cards_columns"
proof -
  have a: "initPostgresTable (quiet_init noon) (fresh_session []) =
       (None, snd (initPostgresTable (quiet_init noon) (fresh_session [])))"
    by (simp add: initPostgresTable_def quiet_init_def fresh_session_def called_def
      table_exists_def create_staff_cards_def db_exec_def create_table_def Let_def)
  have b: "\<not> table_exists (committed (fresh_session [])) ''public'' ''staff_cards''"
    by (simp add: table_exists_def fresh_session_def)
  from fresh_table_all_nullable [OF a] b show ?thesis by simp
qed

text \<open>
  Claim C6 at an input where it fails. \<^verbatim>\<open>public.staff_cards\<close> has only the columns
  \<^verbatim>\<open>id_staff\<close> and \<^verbatim>\<open>identifier\<close>, and schema \<^verbatim>\<open>backup\<close> holds a table of the same
  name with all eight columns. The column query names no schema, so it lists the columns of
  both tables, every required name is found, and the stale table is neither renamed nor
  replaced: the call returns no error and the tables are unchanged.
\<close>

theorem shadowed_stale_table_not_archived:
  "initPostgresTable (quiet_init noon) (fresh_session [narrow_table, shadow_table]) =
     (None, \<lparr>committed = [narrow_table, shadow_table], tx = NoTx,
             trace = [OpQueryTableExists, OpQueryColumns]\<rparr>) \<and>
   \<not> hasAllColumns (map col_name (tbl_columns narrow_table))"
  by (simp add: initPostgresTable_def quiet_init_def fresh_session_def called_def
      table_exists_def is_table_def narrow_table_def shadow_table_def mk_table_def
      column_names_def text_column_def staff_cards_columns_def scan_columns_quiet
      hasAllColumns_def requiredColumns_def Let_def)

section \<open>The source reader\<close>

lemma fetch_rows_null_key:
  "r \<in> set rs \<Longrightarrow> ID_STAFF r = None \<or> IDENTIFIER r = None \<Longrightarrow> \<exists>e. fetch_rows rs acc = Inl e"
proof (induction rs arbitrary: acc)
  case Nil
  then show ?case by simp
next
  case (Cons a rs)
  show ?case
  proof (cases "scan_source_row a")
    case (Inl e)
    then show ?thesis by simp
  next
    case (Inr sc)
    then have "a \<noteq> r" using Cons.prems(2)
      by (auto simp: scan_source_row_def split: option.splits)
    then have "r \<in> set rs" using Cons.prems(1) by simp
    from Cons.IH [OF this Cons.prems(2)] Inr show ?thesis by simp
  qed
qed

lemma scan_source_row_keys:
  "scan_source_row r = Inr sc \<Longrightarrow>
     ID_STAFF r = Some (IDStaff sc) \<and> IDENTIFIER r = Some (Identifier sc)"
  by (auto simp: scan_source_row_def zero_StaffCard_def split: option.splits)

text \<open>
  Claim C10. When a row the source cursor delivers has a NULL staff identifier or a NULL
  card identifier, that row does not decode, and the handler answers with the row-decode
  error (status 500) and leaves the destination session exactly as it was: no call is made
  on the destination, not even the connection. A record is only ever produced from a row
  whose two keys are not NULL, and it carries those keys: NULL is never turned into the
  zero or the empty key.
\<close>

theorem null_key_aborts_before_destination:
  assumes "update_method env = ''POST'' \<or> update_method env = ''GET''"
    and "fb_connect_err env = None" and "fb_query_err env = None"
    and "r \<in> set (fb_rows env)" and "ID_STAFF r = None \<or> IDENTIFIER r = None"
  shows "(\<exists>e. scan_source_row r = Inl e) \<and>
         (\<exists>e. updateHandler env s = (returnJSONError (''Error scanning row: '' @ e) 500, s)) \<and>
         (\<forall>r' sc. scan_source_row r' = Inr sc \<longrightarrow>
            ID_STAFF r' = Some (IDStaff sc) \<and> IDENTIFIER r' = Some (Identifier sc))"
proof -
  have a: "\<exists>e. scan_source_row r = Inl e" using assms(5)
    by (auto simp: scan_source_row_def split: option.splits)
  obtain e where e: "fetch_rows (fb_rows env) [] = Inl e"
    using fetch_rows_null_key [OF assms(4,5)] by blast
  have b: "updateHandler env s = (returnJSONError (''Error scanning row: '' @ e) 500, s)"
    using assms(1,2,3) e by (auto simp: updateHandler_def)
  show ?thesis using a b scan_source_row_keys by blast
qed

theorem null_key_aborts_before_destination_witness:
  "\<exists>e. updateHandler
          (quiet_update ''POST'' [mk_row (Some ''Ivanov'') None None (Some 7) None] noon)
          (fresh_session []) =
        (returnJSONError (''Error scanning row: '' @ e) 500, fresh_session [])"
  using null_key_aborts_before_destination
    [of "quiet_update ''POST'' [mk_row (Some ''Ivanov'') None None (Some 7) None] noon"
        "mk_row (Some ''Ivanov'') None None (Some 7) None" "fresh_session []"]
  by (simp add: quiet_update_def mk_row_def)

text \<open>
  Claim C2. When the source is reached, the query succeeds and the cursor delivers no row
  and ends without error, the handler answers \<^verbatim>\<open>No data found in Firebird\<close> (status 500)
  and the destination session is exactly what it was: its tables, and its trace, which
  shows that no call was made on the destination.
\<close>

theorem empty_extraction_rejected:
  assumes "update_method env = ''POST'' \<or> update_method env = ''GET''"
    and "fb_connect_err env = None" and "fb_query_err env = None"
    and "fb_rows env = []" and "fb_rows_err env = None"
  shows "updateHandler env s = (returnJSONError ''No data found in Firebird'' 500, s)"
  using assms by (auto simp: updateHandler_def)

theorem empty_extraction_rejected_witness:
  "updateHandler (quiet_update ''GET'' [] noon) (fresh_session []) =
     (returnJSONError ''No data found in Firebird'' 500, fresh_session [])"
  using empty_extraction_rejected [of "quiet_update ''GET'' [] noon" "fresh_session []"]
  by (simp add: quiet_update_def)

section \<open>A run of the loader\<close>

lemma fetch_rows_map:
  "fetch_rows rs acc = Inr scs \<Longrightarrow> \<exists>new. scs = acc @ new \<and> map scan_source_row rs = map Inr new"
proof (induction rs arbitrary: acc)
  case Nil
  then show ?case by simp
next
  case (Cons r rs)
  then obtain sc where sc: "scan_source_row r = Inr sc" and
    f: "fetch_rows rs (acc @ [sc]) = Inr scs"
    by (auto split: sum.splits)
  from Cons.IH [OF f] obtain new where "scs = (acc @ [sc]) @ new"
    "map scan_source_row rs = map Inr new" by blast
  then show ?case using sc by (intro exI [of _ "sc # new"]) simp
qed

lemma update_success:
  assumes "updateHandler env s = (r, s')" and "Success (body r)"
  shows "\<exists>scs. map scan_source_row (fb_rows env) = map Inr scs \<and> scs \<noteq> [] \<and>
           load_staff_cards env scs s = (r, s')"
proof -
  from assms obtain scs where f: "fetch_rows (fb_rows env) [] = Inr scs"
    and l: "scs \<noteq> []" "load_staff_cards env scs s = (r, s')"
    by (auto simp: updateHandler_def split: option.splits sum.splits if_splits)
  from fetch_rows_map [OF f] l show ?thesis by auto
qed

lemma sync_result:
  assumes "updateHandler env s = (r, s')" and "Success (body r)"
  shows "\<exists>scs t. map scan_source_row (fb_rows env) = map Inr scs \<and> scs \<noteq> [] \<and>
           known_columns t insert_columns \<and>
           find_table (committed s') ''public'' ''staff_cards'' =
             Some (t\<lparr>tbl_rows := map (stored_row (tbl_columns t)
                                     (Format_2006_01_02_15_04_05 (update_now env))) scs\<rparr>) \<and>
           Data (body r) =
             UpdateData (length scs) (Format_2006_01_02_15_04_05 (update_now env))"
proof -
  from update_success [OF assms] obtain scs where
    a: "map scan_source_row (fb_rows env) = map Inr scs" "scs \<noteq> []"
    "load_staff_cards env scs s = (r, s')" by blast
  from load_success [OF a(3) assms(2)] a(1,2) show ?thesis
    apply (elim exE conjE)
    subgoal for s2 t
      by (rule exI [of _ scs], rule exI [of _ t])
        (simp add: find_table_update_table returnJSONSuccess_def)
    done
qed

lemma stamp_noon: "Format_2006_01_02_15_04_05 noon = ''2024-03-09 12:00:05''"
  by (simp add: Format_2006_01_02_15_04_05_def zero_padded_def noon_def decimal.simps digit_def)

lemma sample_run:
  "updateHandler (quiet_update ''POST'' sample_rows noon) (fresh_session [correct_table [old_row]]) =
     (returnJSONSuccess (UpdateData 2 ''2024-03-09 12:00:05'') ''Updated 2 records'',
      \<lparr>committed =
         [correct_table (map (stored_row staff_cards_columns ''2024-03-09 12:00:05'') sample_cards)],
       tx = TxCommitted,
       trace =
         [OpConnect, OpQueryTableExists, OpQueryColumns, OpBegin, OpExecDelete, OpPrepare,
          OpStmtExec (insert_args (sample_cards ! 0) ''2024-03-09 12:00:05''),
          OpStmtExec (insert_args (sample_cards ! 1) ''2024-03-09 12:00:05''),
          OpCommit, OpStmtClose, OpClose]\<rparr>)"
  by code_simp

lemma sample_success:
  "Success (body (returnJSONSuccess d m))"
  by (simp add: returnJSONSuccess_def)

lemma scan_sample: "map scan_source_row sample_rows = map Inr sample_cards"
  by (simp add: sample_rows_def sample_cards_def mk_row_def scan_source_row_def
      scan_NullString_def ptr_of_def zero_StaffCard_def)

lemma map_Inr_eq: "map Inr xs = map Inr ys \<Longrightarrow> xs = ys"
  by (simp add: inj_map_eq_map)

lemma map_Inr_nth:
  "map f xs = map Inr ys \<Longrightarrow> i < length xs \<Longrightarrow> f (xs ! i) = Inr (ys ! i)"
  by (metis length_map nth_map)

lemma scan_source_row_fields:
  "scan_source_row r = Inr sc \<Longrightarrow>
     LastName sc = LAST_NAME r \<and> FirstName sc = FIRST_NAME r \<and> MiddleName sc = MIDDLE_NAME r \<and>
     Status sc = None \<and> Info sc = None"
  by (auto simp: scan_source_row_def zero_StaffCard_def ptr_of_def scan_NullString_def
      split: option.splits)

lemma search_rows_stored:
  assumes "known_columns t insert_columns"
  shows "search_rows (map (project search_columns \<circ> stored_row (tbl_columns t) ut) xs) acc
           = Inr (acc @ xs)"
  by (induction xs arbitrary: acc) (simp_all add: scan_stored_row [OF assms])

lemma filter_stored_rows:
  assumes "known_columns t insert_columns"
  shows "filter (\<lambda>r. map_of r ''identifier'' = Some (SqlText c))
           (map (stored_row (tbl_columns t) ut) scs) =
         map (stored_row (tbl_columns t) ut) (filter (\<lambda>sc. Identifier sc = c) scs)"
  by (simp add: filter_map o_def stored_row_lookup(2) [OF assms])

lemma known_columns_search:
  "known_columns t insert_columns \<Longrightarrow> known_columns t (''identifier'' # search_columns)"
  by (simp add: known_columns_def insert_columns_def search_columns_def)

lemma known_columns_rows [simp]:
  "known_columns (t\<lparr>tbl_rows := rs\<rparr>) ns = known_columns t ns"
  by (simp add: known_columns_def)

text \<open>
  Claim C8. \<^verbatim>\<open>updateTime\<close> is read from the clock once, after the DELETE and before the
  statement is prepared, and the loop passes it to every INSERT. So after a run that answers
  with success, every row of \<^verbatim>\<open>staff_cards\<close> holds in \<^verbatim>\<open>updated_at\<close> that one text, which
  is also the \<^verbatim>\<open>last_update\<close> of the reply, next to the number of rows.
\<close>

theorem one_timestamp_per_run:
  assumes "updateHandler env s = (r, s')" and "Success (body r)"
  shows "\<exists>t. find_table (committed s') ''public'' ''staff_cards'' = Some t \<and>
           list_all (\<lambda>row. map_of row ''updated_at'' =
                       Some (SqlText (Format_2006_01_02_15_04_05 (update_now env))))
             (tbl_rows t) \<and>
           Data (body r) =
             UpdateData (length (tbl_rows t)) (Format_2006_01_02_15_04_05 (update_now env))"
proof -
  from sync_result [OF assms] obtain scs t where
    a: "known_columns t insert_columns"
    "find_table (committed s') ''public'' ''staff_cards'' =
             Some (t\<lparr>tbl_rows := map (stored_row (tbl_columns t)
                                     (Format_2006_01_02_15_04_05 (update_now env))) scs\<rparr>)"
    "Data (body r) =
             UpdateData (length scs) (Format_2006_01_02_15_04_05 (update_now env))" by auto
  show ?thesis using a stored_row_lookup(8) [OF a(1)]
    by (simp add: list_all_iff)
qed

theorem one_timestamp_per_run_witness:
  "\<exists>t. find_table
         (committed (snd (updateHandler (quiet_update ''POST'' sample_rows noon)
                            (fresh_session [correct_table [old_row]]))))
         ''public'' ''staff_cards'' = Some t \<and>
       list_all (\<lambda>row. map_of row ''updated_at'' = Some (SqlText ''2024-03-09 12:00:05''))
         (tbl_rows t) \<and>
       length (tbl_rows t) = 2"
proof -
  let ?E = "quiet_update ''POST'' sample_rows noon"
  let ?S = "fresh_session [correct_table [old_row]]"
  have a: "updateHandler ?E ?S = (fst (updateHandler ?E ?S), snd (updateHandler ?E ?S))"
    by simp
  have b: "Success (body (fst (updateHandler ?E ?S)))"
    by (simp add: sample_run sample_success)
  have c: "Data (body (fst (updateHandler ?E ?S))) = UpdateData 2 ''2024-03-09 12:00:05''"
    by (simp add: sample_run returnJSONSuccess_def)
  have d: "update_now ?E = noon" by (simp add: quiet_update_def)
  from one_timestamp_per_run [OF a b] c show ?thesis
    by (auto simp: d stamp_noon)
qed

lemma stored_preimage:
  "set D \<subseteq> f ` A \<Longrightarrow> \<exists>xs. D = map f xs \<and> set xs \<subseteq> A"
proof (induction D)
  case Nil
  then show ?case by simp
next
  case (Cons a D)
  then obtain x where x: "x \<in> A" "a = f x" by auto
  from Cons obtain xs where xs: "D = map f xs" "set xs \<subseteq> A" by auto
  show ?case using x xs by (intro exI [of _ "x # xs"]) simp
qed

lemma stored_row_inj:
  assumes "known_columns t insert_columns"
    and "map (stored_row (tbl_columns t) ut) xs = map (stored_row (tbl_columns t) ut) ys"
  shows "xs = ys"
proof -
  have "map (\<lambda>row. scan_card_row (project search_columns row))
          (map (stored_row (tbl_columns t) ut) xs) =
        map (\<lambda>row. scan_card_row (project search_columns row))
          (map (stored_row (tbl_columns t) ut) ys)"
    using assms(2) by simp
  then have "map Inr xs = map Inr ys"
    by (simp add: o_def scan_stored_row [OF assms(1)])
  then show ?thesis by (rule map_Inr_eq)
qed

lemma search_after_load:
  assumes "known_columns t insert_columns"
    and "find_table (committed s) ''public'' ''staff_cards'' =
           Some (t\<lparr>tbl_rows := map (stored_row (tbl_columns t) ut) scs\<rparr>)"
    and "search_method e = ''GET''" and "card e \<noteq> []"
    and "search_connect_err e = None" and "search_query_err e = None"
    and "set (search_delivery e
                (map (stored_row (tbl_columns t) ut) (filter (\<lambda>sc. Identifier sc = card e) scs))) =
         set (map (stored_row (tbl_columns t) ut) (filter (\<lambda>sc. Identifier sc = card e) scs))"
  shows "\<exists>xs. search_delivery e
                (map (stored_row (tbl_columns t) ut) (filter (\<lambda>sc. Identifier sc = card e) scs)) =
              map (stored_row (tbl_columns t) ut) xs \<and>
            set xs \<subseteq> set (filter (\<lambda>sc. Identifier sc = card e) scs) \<and>
            (xs = [] \<longleftrightarrow> filter (\<lambda>sc. Identifier sc = card e) scs = []) \<and>
            fst (searchAPIHandler e s) =
              (case xs of
                 [] \<Rightarrow> returnJSONError ''Card not found'' 404
               | sc # _ \<Rightarrow> returnJSONSuccess (CardData sc) ''Card found'')"
proof -
  let ?f = "stored_row (tbl_columns t) ut"
  let ?ys = "filter (\<lambda>sc. Identifier sc = card e) scs"
  let ?M = "map ?f ?ys"
  from assms(7) have "set (search_delivery e ?M) \<subseteq> ?f ` set ?ys" by simp
  from stored_preimage [OF this] obtain xs where
    xs: "search_delivery e ?M = map ?f xs" "set xs \<subseteq> set ?ys" by blast
  have "?f ` set xs = ?f ` set ?ys" using assms(7) xs(1) by simp
  then have "set xs = {} \<longleftrightarrow> set ?ys = {}" by (metis image_is_empty)
  then have em: "xs = [] \<longleftrightarrow> ?ys = []" by (simp only: set_empty)
  have "fst (searchAPIHandler e s) =
          (case xs of
             [] \<Rightarrow> returnJSONError ''Card not found'' 404
           | sc # _ \<Rightarrow> returnJSONSuccess (CardData sc) ''Card found'')"
    using assms(2,3,4,5,6) known_columns_search [OF assms(1)] xs(1)
    by (simp add: searchAPIHandler_def select_where_def Let_def filter_stored_rows [OF assms(1)]
        search_rows_stored [OF assms(1)] split: list.splits)
  with xs em show ?thesis by blast
qed

text \<open>
  Claim C9, as stated: a search by an identifier that two loaded rows share answers with
  the first match, not an error. For the empty identifier it answers with an error: the two
  rows of the source whose identifier is the empty text are both loaded, and the search by
  that identifier is refused with \<^verbatim>\<open>Missing 'card' parameter\<close> (400) before the table is
  read.
\<close>

theorem blank_identifier_search_refused:
  "fst (updateHandler (quiet_update ''POST'' blank_rows noon) (fresh_session [correct_table []])) =
     returnJSONSuccess (UpdateData 2 ''2024-03-09 12:00:05'') ''Updated 2 records'' \<and>
   map (\<lambda>t. map (\<lambda>row. map_of row ''identifier'') (tbl_rows t))
     (committed (snd (updateHandler (quiet_update ''POST'' blank_rows noon)
                        (fresh_session [correct_table []])))) =
     [[Some (SqlText []), Some (SqlText [])]] \<and>
   fst (searchAPIHandler (quiet_search [])
          (snd (updateHandler (quiet_update ''POST'' blank_rows noon)
                  (fresh_session [correct_table []])))) =
     returnJSONError (''Missing '' @ [CHR 0x27] @ ''card'' @ [CHR 0x27] @ '' parameter'') 400"
  by code_simp

text \<open>
  Claim C9, amended. After a run that answers with success, the rows of \<^verbatim>\<open>staff_cards\<close>
  are, in order and one for one, the records decoded from the rows of the source: each row
  read back with the columns of the search gives the record at the same position, so
  nothing is reordered, merged or dropped, and two source rows with the same identifier
  give two rows. A search that reaches the server, which delivers the rows that match and
  no others in an order of its choosing, answers as follows. For the empty identifier:
  \<^verbatim>\<open>Missing 'card' parameter\<close> (400). For any other identifier: \<^verbatim>\<open>Card not found\<close>
  (404) when the server delivers no row, which is when no loaded record has that identifier;
  otherwise the record decoded from the first row delivered, which is one of the loaded
  records with that identifier. When the server delivers the rows in the order of
  insertion, that record is the first one in the order of the source.
\<close>

theorem load_keeps_order_search_answers_one:
  assumes "updateHandler env s = (r, s')" and "Success (body r)"
    and "search_method e = ''GET''"
    and "search_connect_err e = None" and "search_query_err e = None"
    and "\<And>rs. set (search_delivery e rs) = set rs"
  shows "\<exists>scs t. map scan_source_row (fb_rows env) = map Inr scs \<and>
           find_table (committed s') ''public'' ''staff_cards'' = Some t \<and>
           map (\<lambda>row. scan_card_row (project search_columns row)) (tbl_rows t) = map Inr scs \<and>
           (if card e = []
            then fst (searchAPIHandler e s') =
                   returnJSONError (''Missing '' @ [CHR 0x27] @ ''card'' @ [CHR 0x27] @ '' parameter'')
                     400
            else case search_delivery e
                        (filter (\<lambda>row. map_of row ''identifier'' = Some (SqlText (card e)))
                           (tbl_rows t)) of
                   [] \<Rightarrow>
                     filter (\<lambda>sc. Identifier sc = card e) scs = [] \<and>
                     fst (searchAPIHandler e s') = returnJSONError ''Card not found'' 404
                 | row # _ \<Rightarrow>
                     \<exists>sc. sc \<in> set scs \<and> Identifier sc = card e \<and>
                          scan_card_row (project search_columns row) = Inr sc \<and>
                          fst (searchAPIHandler e s') =
                            returnJSONSuccess (CardData sc) ''Card found'') \<and>
           (card e \<noteq> [] \<and>
            search_delivery e
              (filter (\<lambda>row. map_of row ''identifier'' = Some (SqlText (card e))) (tbl_rows t)) =
            filter (\<lambda>row. map_of row ''identifier'' = Some (SqlText (card e))) (tbl_rows t) \<longrightarrow>
            fst (searchAPIHandler e s') =
              (case filter (\<lambda>sc. Identifier sc = card e) scs of
                 [] \<Rightarrow> returnJSONError ''Card not found'' 404
               | sc # _ \<Rightarrow> returnJSONSuccess (CardData sc) ''Card found''))"
proof -
  let ?ut = "Format_2006_01_02_15_04_05 (update_now env)"
  from sync_result [OF assms(1,2)] obtain scs t where
    a: "map scan_source_row (fb_rows env) = map Inr scs"
       "known_columns t insert_columns"
       "find_table (committed s') ''public'' ''staff_cards'' =
          Some (t\<lparr>tbl_rows := map (stored_row (tbl_columns t) ?ut) scs\<rparr>)"
    by auto
  let ?f = "stored_row (tbl_columns t) ?ut"
  let ?t = "t\<lparr>tbl_rows := map ?f scs\<rparr>"
  let ?ys = "filter (\<lambda>sc. Identifier sc = card e) scs"
  let ?M = "filter (\<lambda>row. map_of row ''identifier'' = Some (SqlText (card e))) (tbl_rows ?t)"
  have M: "?M = map ?f ?ys"
    by (simp add: filter_stored_rows [OF a(2)])
  have b: "map (\<lambda>row. scan_card_row (project search_columns row)) (tbl_rows ?t) = map Inr scs"
    by (simp add: o_def scan_stored_row [OF a(2)])
  have c: "if card e = []
            then fst (searchAPIHandler e s') =
                   returnJSONError (''Missing '' @ [CHR 0x27] @ ''card'' @ [CHR 0x27] @ '' parameter'')
                     400
            else case search_delivery e ?M of
                   [] \<Rightarrow>
                     ?ys = [] \<and>
                     fst (searchAPIHandler e s') = returnJSONError ''Card not found'' 404
                 | row # _ \<Rightarrow>
                     \<exists>sc. sc \<in> set scs \<and> Identifier sc = card e \<and>
                          scan_card_row (project search_columns row) = Inr sc \<and>
                          fst (searchAPIHandler e s') =
                            returnJSONSuccess (CardData sc) ''Card found''"
  proof (cases "card e = []")
    case True
    then show ?thesis using assms(3) by (simp add: searchAPIHandler_def)
  next
    case False
    have "set (search_delivery e (map ?f ?ys)) = set (map ?f ?ys)" by (rule assms(6))
    from search_after_load [OF a(2,3) assms(3) False assms(4,5) this] obtain xs where
      xs: "search_delivery e (map ?f ?ys) = map ?f xs" "set xs \<subseteq> set ?ys"
          "xs = [] \<longleftrightarrow> ?ys = []"
          "fst (searchAPIHandler e s') =
             (case xs of
                [] \<Rightarrow> returnJSONError ''Card not found'' 404
              | sc # _ \<Rightarrow> returnJSONSuccess (CardData sc) ''Card found'')"
      by blast
    show ?thesis
    proof (cases xs)
      case Nil
      then show ?thesis using False xs M by simp
    next
      case (Cons x rest)
      then have "x \<in> set scs" "Identifier x = card e" using xs(2) by auto
      then show ?thesis using False xs(1,4) M Cons scan_stored_row [OF a(2), of ?ut x]
        by auto
    qed
  qed
  have d: "card e \<noteq> [] \<and> search_delivery e ?M = ?M \<longrightarrow>
            fst (searchAPIHandler e s') =
              (case ?ys of
                 [] \<Rightarrow> returnJSONError ''Card not found'' 404
               | sc # _ \<Rightarrow> returnJSONSuccess (CardData sc) ''Card found'')"
  proof (intro impI, elim conjE)
    assume ne: "card e \<noteq> []" and id: "search_delivery e ?M = ?M"
    have "set (search_delivery e (map ?f ?ys)) = set (map ?f ?ys)" by (rule assms(6))
    from search_after_load [OF a(2,3) assms(3) ne assms(4,5) this] obtain xs where
      xs: "search_delivery e (map ?f ?ys) = map ?f xs"
          "fst (searchAPIHandler e s') =
             (case xs of
                [] \<Rightarrow> returnJSONError ''Card not found'' 404
              | sc # _ \<Rightarrow> returnJSONSuccess (CardData sc) ''Card found'')"
      by blast
    from xs(1) id M have "map ?f xs = map ?f ?ys" by simp
    from stored_row_inj [OF a(2) this] xs(2) show "fst (searchAPIHandler e s') =
              (case ?ys of
                 [] \<Rightarrow> returnJSONError ''Card not found'' 404
               | sc # _ \<Rightarrow> returnJSONSuccess (CardData sc) ''Card found'')" by simp
  qed
  show ?thesis
    apply (rule exI [of _ scs], rule exI [of _ ?t])
    using a(1,3) b c d by simp
qed

theorem load_keeps_order_search_answers_one_witness:
  "fst (searchAPIHandler (quiet_search ''0007'')
          (snd (updateHandler (quiet_update ''POST'' sample_rows noon)
                  (fresh_session [correct_table [old_row]])))) =
     returnJSONSuccess
       (CardData \<lparr>IDStaff = 7, Identifier = ''0007'', LastName = None, FirstName = Some ''Anna'',
                   MiddleName = Some [], Status = None, Info = None\<rparr>) ''Card found'' \<and>
   (\<exists>t. find_table
          (committed (snd (updateHandler (quiet_update ''POST'' sample_rows noon)
                             (fresh_session [correct_table [old_row]]))))
          ''public'' ''staff_cards'' = Some t \<and>
        map (\<lambda>row. scan_card_row (project search_columns row)) (tbl_rows t) =
          map Inr sample_cards)"
proof -
  let ?E = "quiet_update ''POST'' sample_rows noon"
  let ?S = "fresh_session [correct_table [old_row]]"
  let ?e = "quiet_search ''0007''"
  have a: "updateHandler ?E ?S = (fst (updateHandler ?E ?S), snd (updateHandler ?E ?S))"
    by simp
  have b: "Success (body (fst (updateHandler ?E ?S)))"
    by (simp add: sample_run sample_success)
  have c: "search_method ?e = ''GET''" "search_connect_err ?e = None"
    "search_query_err ?e = None" "card ?e = ''0007''" "\<And>rs. search_delivery ?e rs = rs"
    by (simp_all add: quiet_search_def)
  have c': "\<And>rs. set (search_delivery ?e rs) = set rs" by (simp add: c(5))
  have d: "fb_rows ?E = sample_rows" by (simp add: quiet_update_def)
  from load_keeps_order_search_answers_one [OF a b c(1,2,3) c'] obtain scs t where
    e: "map scan_source_row (fb_rows ?E) = map Inr scs"
       "find_table (committed (snd (updateHandler ?E ?S))) ''public'' ''staff_cards'' = Some t"
       "map (\<lambda>row. scan_card_row (project search_columns row)) (tbl_rows t) = map Inr scs"
       "card ?e \<noteq> [] \<and>
        search_delivery ?e
          (filter (\<lambda>row. map_of row ''identifier'' = Some (SqlText (card ?e))) (tbl_rows t)) =
        filter (\<lambda>row. map_of row ''identifier'' = Some (SqlText (card ?e))) (tbl_rows t) \<longrightarrow>
        fst (searchAPIHandler ?e (snd (updateHandler ?E ?S))) =
          (case filter (\<lambda>sc. Identifier sc = card ?e) scs of
             [] \<Rightarrow> returnJSONError ''Card not found'' 404
           | sc # _ \<Rightarrow> returnJSONSuccess (CardData sc) ''Card found'')"
    by blast
  from e(1) have f: "scs = sample_cards"
    by (simp add: d scan_sample map_Inr_eq)
  from e(4) have g: "fst (searchAPIHandler ?e (snd (updateHandler ?E ?S))) =
          (case filter (\<lambda>sc. Identifier sc = ''0007'') sample_cards of
             [] \<Rightarrow> returnJSONError ''Card not found'' 404
           | sc # _ \<Rightarrow> returnJSONSuccess (CardData sc) ''Card found'')"
    by (simp add: c f)
  show ?thesis using e(2,3) g unfolding f
    by (auto simp: sample_cards_def)
qed

text \<open>
  Which of two rows with the same identifier the search answers with is the server's choice:
  when it delivers the matching rows of the sample in the reverse order, the answer is the
  second record.
\<close>

lemma reversed_delivery_answers_second:
  "fst (searchAPIHandler ((quiet_search ''0007'')\<lparr>search_delivery := rev\<rparr>)
          (snd (updateHandler (quiet_update ''POST'' sample_rows noon)
                  (fresh_session [correct_table [old_row]])))) =
     returnJSONSuccess (CardData (sample_cards ! 1)) ''Card found''"
  by code_simp

text \<open>
  Claim C3. After a run that answers with success, the rows of \<^verbatim>\<open>staff_cards\<close> match the
  rows of the source one for one, and for each pair: the columns \<^verbatim>\<open>last_name\<close>,
  \<^verbatim>\<open>first_name\<close> and \<^verbatim>\<open>middle_name\<close> hold NULL where the source column is NULL and
  the text of the source otherwise (the empty text where the source has the empty text);
  \<^verbatim>\<open>status\<close> and \<^verbatim>\<open>info\<close>, which the source query does not select, hold NULL; and
  the record the search decodes from the row is the record the loader decoded from the
  source row, whose name pointers are \<^verbatim>\<open>nil\<close> exactly where the source column is NULL and
  whose \<^verbatim>\<open>Status\<close> and \<^verbatim>\<open>Info\<close> are \<^verbatim>\<open>nil\<close>.
\<close>

theorem null_round_trip:
  assumes "updateHandler env s = (r, s')" and "Success (body r)"
  shows "\<exists>t. find_table (committed s') ''public'' ''staff_cards'' = Some t \<and>
           list_all2
             (\<lambda>src row.
                map_of row ''last_name'' =
                  Some (case LAST_NAME src of None \<Rightarrow> SqlNull | Some x \<Rightarrow> SqlText x) \<and>
                map_of row ''first_name'' =
                  Some (case FIRST_NAME src of None \<Rightarrow> SqlNull | Some x \<Rightarrow> SqlText x) \<and>
                map_of row ''middle_name'' =
                  Some (case MIDDLE_NAME src of None \<Rightarrow> SqlNull | Some x \<Rightarrow> SqlText x) \<and>
                map_of row ''status'' = Some SqlNull \<and> map_of row ''info'' = Some SqlNull \<and>
                (\<exists>sc. scan_source_row src = Inr sc \<and>
                      scan_card_row (project search_columns row) = Inr sc \<and>
                      LastName sc = LAST_NAME src \<and> FirstName sc = FIRST_NAME src \<and>
                      MiddleName sc = MIDDLE_NAME src \<and> Status sc = None \<and> Info sc = None))
             (fb_rows env) (tbl_rows t)"
proof -
  let ?ut = "Format_2006_01_02_15_04_05 (update_now env)"
  from sync_result [OF assms] obtain scs t where
    a: "map scan_source_row (fb_rows env) = map Inr scs"
       "known_columns t insert_columns"
       "find_table (committed s') ''public'' ''staff_cards'' =
          Some (t\<lparr>tbl_rows := map (stored_row (tbl_columns t) ?ut) scs\<rparr>)"
    by auto
  have len: "length (fb_rows env) = length scs"
    using a(1) by (metis length_map)
  have "list_all2
          (\<lambda>src row.
             map_of row ''last_name'' =
               Some (case LAST_NAME src of None \<Rightarrow> SqlNull | Some x \<Rightarrow> SqlText x) \<and>
             map_of row ''first_name'' =
               Some (case FIRST_NAME src of None \<Rightarrow> SqlNull | Some x \<Rightarrow> SqlText x) \<and>
             map_of row ''middle_name'' =
               Some (case MIDDLE_NAME src of None \<Rightarrow> SqlNull | Some x \<Rightarrow> SqlText x) \<and>
             map_of row ''status'' = Some SqlNull \<and> map_of row ''info'' = Some SqlNull \<and>
             (\<exists>sc. scan_source_row src = Inr sc \<and>
                   scan_card_row (project search_columns row) = Inr sc \<and>
                   LastName sc = LAST_NAME src \<and> FirstName sc = FIRST_NAME src \<and>
                   MiddleName sc = MIDDLE_NAME src \<and> Status sc = None \<and> Info sc = None))
          (fb_rows env) (map (stored_row (tbl_columns t) ?ut) scs)"
  proof (rule list_all2_all_nthI)
    show "length (fb_rows env) = length (map (stored_row (tbl_columns t) ?ut) scs)"
      using len by simp
  next
    fix i assume i: "i < length (fb_rows env)"
    from map_Inr_nth [OF a(1) i] have sc: "scan_source_row (fb_rows env ! i) = Inr (scs ! i)" .
    note fl = scan_source_row_fields [OF sc]
    have nth: "map (stored_row (tbl_columns t) ?ut) scs ! i = stored_row (tbl_columns t) ?ut (scs ! i)"
      using i len by simp
    show "map_of (map (stored_row (tbl_columns t) ?ut) scs ! i) ''last_name'' =
               Some (case LAST_NAME (fb_rows env ! i) of None \<Rightarrow> SqlNull | Some x \<Rightarrow> SqlText x) \<and>
             map_of (map (stored_row (tbl_columns t) ?ut) scs ! i) ''first_name'' =
               Some (case FIRST_NAME (fb_rows env ! i) of None \<Rightarrow> SqlNull | Some x \<Rightarrow> SqlText x) \<and>
             map_of (map (stored_row (tbl_columns t) ?ut) scs ! i) ''middle_name'' =
               Some (case MIDDLE_NAME (fb_rows env ! i) of None \<Rightarrow> SqlNull | Some x \<Rightarrow> SqlText x) \<and>
             map_of (map (stored_row (tbl_columns t) ?ut) scs ! i) ''status'' = Some SqlNull \<and>
             map_of (map (stored_row (tbl_columns t) ?ut) scs ! i) ''info'' = Some SqlNull \<and>
             (\<exists>sc. scan_source_row (fb_rows env ! i) = Inr sc \<and>
                   scan_card_row (project search_columns
                      (map (stored_row (tbl_columns t) ?ut) scs ! i)) = Inr sc \<and>
                   LastName sc = LAST_NAME (fb_rows env ! i) \<and>
                   FirstName sc = FIRST_NAME (fb_rows env ! i) \<and>
                   MiddleName sc = MIDDLE_NAME (fb_rows env ! i) \<and> Status sc = None \<and>
                   Info sc = None)"
      unfolding nth
      using fl sc stored_row_lookup [OF a(2), of ?ut "scs ! i"] scan_stored_row [OF a(2), of ?ut "scs ! i"]
      by (simp add: arg_of_ptr_def)
  qed
  with a(3) show ?thesis by simp
qed

theorem null_round_trip_witness:
  "\<exists>t. find_table
         (committed (snd (updateHandler (quiet_update ''POST'' sample_rows noon)
                            (fresh_session [correct_table [old_row]]))))
         ''public'' ''staff_cards'' = Some t \<and>
       map (\<lambda>row. (map_of row ''last_name'', map_of row ''middle_name'', map_of row ''status''))
         (tbl_rows t) =
         [(Some SqlNull, Some (SqlText []), Some SqlNull),
          (Some (SqlText ''Petrov''), Some SqlNull, Some SqlNull)] \<and>
       map (\<lambda>row. scan_card_row (project search_columns row)) (tbl_rows t) =
         map Inr sample_cards"
proof -
  let ?E = "quiet_update ''POST'' sample_rows noon"
  let ?S = "fresh_session [correct_table [old_row]]"
  have a: "updateHandler ?E ?S = (fst (updateHandler ?E ?S), snd (updateHandler ?E ?S))"
    by simp
  have b: "Success (body (fst (updateHandler ?E ?S)))"
    by (simp add: sample_run sample_success)
  have d: "fb_rows ?E = sample_rows" by (simp add: quiet_update_def)
  have e: "scan_source_row (sample_rows ! 0) = Inr (sample_cards ! 0)"
    "scan_source_row (sample_rows ! 1) = Inr (sample_cards ! 1)"
    using scan_sample by (simp_all add: sample_rows_def sample_cards_def)
  from null_round_trip [OF a b] show ?thesis
    unfolding d using e
    by (auto simp: sample_rows_def sample_cards_def mk_row_def list_all2_Cons1)
qed

text \<open>
  Claim C1 at an input where it fails. The table holds one row, the source delivers two
  rows, and the second INSERT fails. The handler answers \<^verbatim>\<open>Error inserting data\<close> (500);
  the deferred function tests the \<^verbatim>\<open>err\<close> of the handler, which the loop's own \<^verbatim>\<open>err\<close>
  shadows and which is still \<^verbatim>\<open>nil\<close>, so \<^verbatim>\<open>tx.Rollback\<close> is not called: the trace ends
  with \<^verbatim>\<open>stmt.Close\<close> and \<^verbatim>\<open>pgDB.Close\<close>, and the transaction stays open on its working
  copy, in which the old row is deleted and the first record inserted. The committed
  table still holds the old row.
\<close>

theorem failed_insert_not_rolled_back:
  "updateHandler second_insert_fails (fresh_session [correct_table [old_row]]) =
     (returnJSONError ''Error inserting data: boom'' 500,
      \<lparr>committed = [correct_table [old_row]],
       tx = TxOpen [correct_table
                      [stored_row staff_cards_columns ''2024-03-09 12:00:05'' (sample_cards ! 0)]],
       trace =
         [OpConnect, OpQueryTableExists, OpQueryColumns, OpBegin, OpExecDelete, OpPrepare,
          OpStmtExec (insert_args (sample_cards ! 0) ''2024-03-09 12:00:05''),
          OpStmtExec (insert_args (sample_cards ! 1) ''2024-03-09 12:00:05''),
          OpStmtClose, OpClose]\<rparr>) \<and>
   OpRollback \<notin> set (trace (snd (updateHandler second_insert_fails
                                    (fresh_session [correct_table [old_row]]))))"
  by code_simp

end
